theory Spec2Isabelle
  imports Complex_Main "HOL-Library.Log_Nat"
begin

section \<open>Values, dictionaries and exceptions\<close>

text \<open>
  The projection model (\<^verbatim>\<open>model.py\<close>) works on Python floats held in dictionaries keyed
  by strings. Floats are modelled as real numbers and every arithmetic operation is exact;
  only the section on binary64 arithmetic models the rounding of line 9, and infinities
  and NaN are outside this development. A dictionary value is either
  \<^verbatim>\<open>None\<close> or a float; a dictionary is a partial map from keys to such values.
  Exceptions are values of the type \<open>error\<close>: a failing subscript raises
  \<^verbatim>\<open>KeyError\<close> with the key, arithmetic on \<^verbatim>\<open>None\<close> raises \<^verbatim>\<open>TypeError\<close>.
  Parameters that the callers always pass as numbers, booleans or strings (games played,
  spread, injury counts, venue strength) carry those types.
\<close>

datatype pyval = PNone | PFloat real

datatype error = KeyError string | TypeError

type_synonym stats = "string \<rightharpoonup> pyval"

definition bindE :: "error + 'a \<Rightarrow> ('a \<Rightarrow> error + 'b) \<Rightarrow> error + 'b" where
  "bindE m f = (case m of Inl e \<Rightarrow> Inl e | Inr v \<Rightarrow> f v)"

text \<open>A value used as an operand of float arithmetic.\<close>

fun num :: "pyval \<Rightarrow> error + real" where
  "num PNone = Inl TypeError"
| "num (PFloat x) = Inr x"

text \<open>\<^verbatim>\<open>d[k]\<close> and \<^verbatim>\<open>d.get(k, default)\<close>.\<close>

definition getitem :: "stats \<Rightarrow> string \<Rightarrow> error + pyval" where
  "getitem d k = (case d k of None \<Rightarrow> Inl (KeyError k) | Some v \<Rightarrow> Inr v)"

definition get_default :: "stats \<Rightarrow> string \<Rightarrow> pyval \<Rightarrow> pyval" where
  "get_default d k dflt = (case d k of None \<Rightarrow> dflt | Some v \<Rightarrow> v)"

section \<open>Blending functions\<close>

text \<open>
  \<^verbatim>\<open>calculate_net_epa\<close> (lines 4-9), in exact arithmetic; the section on binary64
  arithmetic below gives the same line with its rounding.
\<close>

definition calculate_net_epa :: "real \<Rightarrow> real \<Rightarrow> real" where
  "calculate_net_epa off_epa def_epa_allowed =
     ((off_epa * 1.6) + (def_epa_allowed * 1.0)) / 2.6"

text \<open>
  \<^verbatim>\<open>calculate_weighted_epa\<close> (lines 11-22). The first branch hands the season value back
  untouched, whatever it is; the other branches multiply both values, which raises
  \<^verbatim>\<open>TypeError\<close> on \<^verbatim>\<open>None\<close>.
\<close>

definition blend :: "pyval \<Rightarrow> real \<Rightarrow> pyval \<Rightarrow> real \<Rightarrow> error + pyval" where
  "blend a wa b wb =
     bindE (num a) (\<lambda>x. bindE (num b) (\<lambda>y. Inr (PFloat ((x * wa) + (y * wb)))))"

definition calculate_weighted_epa :: "pyval \<Rightarrow> pyval \<Rightarrow> int \<Rightarrow> error + pyval" where
  "calculate_weighted_epa season_epa last_5_epa games_played =
     (if games_played \<le> 5 then Inr season_epa
      else if games_played \<le> 10 then blend season_epa 0.65 last_5_epa 0.35
      else if games_played \<le> 14 then blend season_epa 0.50 last_5_epa 0.50
      else blend season_epa 0.40 last_5_epa 0.60)"

text \<open>\<^verbatim>\<open>calculate_expected_pass_rate\<close> (lines 24-44).\<close>

definition calculate_expected_pass_rate :: "real \<Rightarrow> real \<Rightarrow> real \<Rightarrow> real \<Rightarrow> real \<Rightarrow> real" where
  "calculate_expected_pass_rate team_pass_rate proe def_pass_rate_against league_avg_pass_rate spread =
     (let team_tendency = team_pass_rate + proe;
          defense_influence = def_pass_rate_against - league_avg_pass_rate;
          base_expected = (team_tendency * 0.6) + ((team_pass_rate + defense_influence) * 0.4);
          spread_adjustment =
            (if spread \<ge> 7 then 0.05
             else if spread \<ge> 4 then 0.03
             else if spread \<le> -7 then -0.04
             else if spread \<le> -4 then -0.02
             else 0.0)
      in base_expected + spread_adjustment)"

text \<open>\<^verbatim>\<open>calculate_expected_plays\<close> (lines 46-58).\<close>

definition calculate_expected_plays :: "real \<Rightarrow> real \<Rightarrow> real \<Rightarrow> real" where
  "calculate_expected_plays team_pace opp_pace spread =
     (let base_plays = (team_pace + opp_pace) / 2;
          pace_adjustment =
            (if \<bar>spread\<bar> \<le> 3 then 3.0
             else if \<bar>spread\<bar> \<ge> 10 then -4.0
             else 0.0)
      in base_plays + pace_adjustment)"

text \<open>\<^verbatim>\<open>calculate_weather_adjustment\<close> (lines 60-84).\<close>

definition precip_impact :: "string \<rightharpoonup> real" where
  "precip_impact = map_of
     [(''heavy_rain'', 3.0), (''light_snow'', 2.0), (''heavy_snow'', 4.0), (''blizzard'', 8.0)]"

definition calculate_weather_adjustment :: "real \<Rightarrow> real \<Rightarrow> string \<Rightarrow> real" where
  "calculate_weather_adjustment wind_mph temp_f precipitation =
     (let adjustment = 0.0;
          adjustment =
            (if wind_mph \<ge> 20 then adjustment + 6.0
             else if wind_mph \<ge> 15 then adjustment + 3.0
             else if wind_mph \<ge> 10 then adjustment + 1.0
             else adjustment);
          adjustment = (if temp_f < 0 then adjustment + 2.0 else adjustment);
          adjustment = adjustment +
            (case precip_impact precipitation of None \<Rightarrow> 0.0 | Some v \<Rightarrow> v)
      in adjustment)"

text \<open>
  \<^verbatim>\<open>calculate_success_rate_adjustment\<close> (lines 86-94); the keyword defaults
  \<^verbatim>\<open>league_avg=0.46\<close> and \<^verbatim>\<open>weight=55\<close> are passed explicitly by the caller below.
\<close>

definition calculate_success_rate_adjustment :: "real \<Rightarrow> real \<Rightarrow> real \<Rightarrow> real" where
  "calculate_success_rate_adjustment success_rate league_avg weight =
     (let differential = success_rate - league_avg in differential * weight)"

section \<open>The record built by the merge\<close>

text \<open>
  The dictionary that \<^verbatim>\<open>merge_team_data\<close> stores for one team (lines 271-293), from the
  team's rows of the five loaded tables. Here the league-average defaults are applied;
  \<^verbatim>\<open>pace\<close> and \<^verbatim>\<open>def_pass_rate_against\<close> are read with a bare \<^verbatim>\<open>get\<close> and so
  become \<^verbatim>\<open>None\<close> when the tendencies row lacks them.
\<close>

definition merge_team_record :: "stats \<Rightarrow> stats \<Rightarrow> stats \<Rightarrow> stats \<Rightarrow> stats \<Rightarrow> stats" where
  "merge_team_record tend off_s off_l def_s def_l = map_of
     [(''pass_rate'', get_default tend ''pass_rate'' (PFloat 0.60)),
      (''proe'', get_default tend ''proe'' (PFloat 0.0)),
      (''pace'', get_default tend ''pace'' PNone),
      (''def_pass_rate_against'', get_default tend ''def_pass_rate_against'' PNone),
      (''season_pass_epa'', get_default off_s ''dropback_epa'' (PFloat 0.0)),
      (''last5_pass_epa'', get_default off_l ''dropback_epa'' (PFloat 0.0)),
      (''season_run_epa'', get_default off_s ''rush_epa'' (PFloat 0.0)),
      (''last5_run_epa'', get_default off_l ''rush_epa'' (PFloat 0.0)),
      (''season_pass_success'', get_default off_s ''dropback_sr'' (PFloat 0.46)),
      (''last5_pass_success'', get_default off_l ''dropback_sr'' (PFloat 0.46)),
      (''season_run_success'', get_default off_s ''rush_sr'' (PFloat 0.43)),
      (''last5_run_success'', get_default off_l ''rush_sr'' (PFloat 0.43)),
      (''def_season_pass_epa'', get_default def_s ''dropback_epa'' (PFloat 0.0)),
      (''def_last5_pass_epa'', get_default def_l ''dropback_epa'' (PFloat 0.0)),
      (''def_season_run_epa'', get_default def_s ''rush_epa'' (PFloat 0.0)),
      (''def_last5_run_epa'', get_default def_l ''rush_epa'' (PFloat 0.0))]"

section \<open>The single-team projection\<close>

text \<open>
  \<^verbatim>\<open>project_team_score\<close> (lines 301-405) is one long function that threads a handful of
  running values through its sections. The running values are the fields of \<open>running\<close>;
  each commented section of the source is one function on that record, and
  \<open>project_team_score\<close> chains them in the source's order. The EPA and success values
  stay dictionary values until the first arithmetic on them, as in Python.
\<close>

record running =
  o_pass :: pyval
  o_run :: pyval
  d_pass :: pyval
  d_run :: pyval
  pass_success :: pyval
  run_success :: pyval
  expected_pass_rate :: real
  expected_plays :: real

record projection =
  score :: real
  pass_rate :: real
  plays :: real
  pass_attempts :: real
  matchup_epa :: real
  success_rate :: real
  success_adjustment :: real

text \<open>Lines 311-313: an override that is not \<^verbatim>\<open>None\<close> wins over the record's field.\<close>

definition resolve :: "pyval \<Rightarrow> stats \<Rightarrow> string \<Rightarrow> pyval \<Rightarrow> pyval" where
  "resolve override d k dflt = (if override \<noteq> PNone then override else get_default d k dflt)"

text \<open>Lines 316-319: \<^verbatim>\<open>if pace == 0 or pace is None: pace = 62.0\<close>.\<close>

fun zero_pace_check :: "pyval \<Rightarrow> real" where
  "zero_pace_check PNone = 62.0"
| "zero_pace_check (PFloat x) = (if x = 0 then 62.0 else x)"

text \<open>Lines 311-345: resolve the inputs, weight the statistics, pass rate and plays.\<close>

definition weighted_field :: "stats \<Rightarrow> string \<Rightarrow> string \<Rightarrow> int \<Rightarrow> error + pyval" where
  "weighted_field d season_key last5_key games_played =
     bindE (getitem d season_key) (\<lambda>s.
     bindE (getitem d last5_key) (\<lambda>l.
     calculate_weighted_epa s l games_played))"

definition gather_inputs ::
  "stats \<Rightarrow> stats \<Rightarrow> int \<Rightarrow> int \<Rightarrow> real \<Rightarrow> real \<Rightarrow> pyval \<Rightarrow> pyval \<Rightarrow> pyval \<Rightarrow> error + running" where
  "gather_inputs team_stats opp_stats team_games_played opp_games_played spread
       league_avg_pass_rate pace_override opp_pace_override def_pass_rate_override =
     (let team_pace = resolve pace_override team_stats ''pace'' (PFloat 65.0);
          opp_pace = resolve opp_pace_override opp_stats ''pace'' (PFloat 65.0);
          def_pass_rate_against =
            resolve def_pass_rate_override opp_stats ''def_pass_rate_against'' (PFloat 0.60);
          team_pace = zero_pace_check team_pace;
          opp_pace = zero_pace_check opp_pace
      in
      bindE (getitem team_stats ''pass_rate'') (\<lambda>team_pass_rate.
      bindE (getitem team_stats ''proe'') (\<lambda>proe.
      bindE (weighted_field team_stats ''season_pass_epa'' ''last5_pass_epa'' team_games_played) (\<lambda>op.
      bindE (weighted_field team_stats ''season_run_epa'' ''last5_run_epa'' team_games_played) (\<lambda>or.
      bindE (weighted_field opp_stats ''def_season_pass_epa'' ''def_last5_pass_epa'' opp_games_played) (\<lambda>dp.
      bindE (weighted_field opp_stats ''def_season_run_epa'' ''def_last5_run_epa'' opp_games_played) (\<lambda>dr.
      bindE (weighted_field team_stats ''season_pass_success'' ''last5_pass_success'' team_games_played) (\<lambda>ps.
      bindE (weighted_field team_stats ''season_run_success'' ''last5_run_success'' team_games_played) (\<lambda>rs.
      bindE (num team_pass_rate) (\<lambda>tpr.
      bindE (num proe) (\<lambda>pr.
      bindE (num def_pass_rate_against) (\<lambda>dpra.
      Inr \<lparr>o_pass = op, o_run = or, d_pass = dp, d_run = dr,
           pass_success = ps, run_success = rs,
           expected_pass_rate =
             calculate_expected_pass_rate tpr pr dpra league_avg_pass_rate spread,
           expected_plays = calculate_expected_plays team_pace opp_pace spread\<rparr>))))))))))))"

text \<open>Lines 348-366: the injury adjustments, in the source's order.\<close>

definition qb_adjust :: "bool \<Rightarrow> running \<Rightarrow> error + running" where
  "qb_adjust qb_out r =
     (if qb_out then
        bindE (num (o_pass r)) (\<lambda>op.
        bindE (num (pass_success r)) (\<lambda>ps.
        Inr (r\<lparr>o_pass := PFloat (op - 0.20),
               expected_pass_rate := expected_pass_rate r - 0.07,
               expected_plays := expected_plays r - 3.0,
               pass_success := PFloat (ps - 0.05)\<rparr>)))
      else Inr r)"

definition wr_adjust :: "int \<Rightarrow> running \<Rightarrow> error + running" where
  "wr_adjust elite_wr_out r =
     bindE (num (o_pass r)) (\<lambda>op.
     bindE (num (pass_success r)) (\<lambda>ps.
     Inr (r\<lparr>o_pass := PFloat (op - (real_of_int elite_wr_out * 0.06)),
            expected_pass_rate := expected_pass_rate r - (real_of_int elite_wr_out * 0.02),
            pass_success := PFloat (ps - (real_of_int elite_wr_out * 0.02))\<rparr>)))"

definition ol_adjust :: "int \<Rightarrow> running \<Rightarrow> error + running" where
  "ol_adjust ol_missing r =
     bindE (num (o_pass r)) (\<lambda>op.
     (let r = r\<lparr>o_pass := PFloat (op - (real_of_int ol_missing * 0.02))\<rparr> in
      if ol_missing \<ge> 2 then
        bindE (num (pass_success r)) (\<lambda>ps.
        Inr (r\<lparr>expected_pass_rate := expected_pass_rate r - 0.02,
               pass_success := PFloat (ps - 0.03)\<rparr>))
      else Inr r))"

definition edge_adjust :: "int \<Rightarrow> running \<Rightarrow> error + running" where
  "edge_adjust edge_missing r =
     (if edge_missing \<ge> 1 then
        bindE (num (d_pass r)) (\<lambda>dp.
        bindE (num (o_pass r)) (\<lambda>op.
        Inr (r\<lparr>d_pass := PFloat (dp + 0.03),
               o_pass := PFloat (op + 0.03),
               expected_pass_rate := expected_pass_rate r + 0.025\<rparr>)))
      else Inr r)"

definition apply_injuries :: "bool \<Rightarrow> int \<Rightarrow> int \<Rightarrow> int \<Rightarrow> running \<Rightarrow> error + running" where
  "apply_injuries qb_out elite_wr_out ol_missing edge_missing r =
     bindE (qb_adjust qb_out r) (\<lambda>r.
     bindE (wr_adjust elite_wr_out r) (\<lambda>r.
     bindE (ol_adjust ol_missing r) (\<lambda>r.
     edge_adjust edge_missing r)))"

text \<open>
  Lines 368-375: the home field adjustment. The subscript \<^verbatim>\<open>home_adj[home_strength]\<close>
  stands in both branches, and is evaluated before the addition it feeds.
\<close>

definition home_adj :: "string \<rightharpoonup> real" where
  "home_adj = map_of [(''weak'', 0.01), (''average'', 0.015), (''strong'', 0.025)]"

definition home_field_adjustment :: "bool \<Rightarrow> string \<Rightarrow> running \<Rightarrow> error + running" where
  "home_field_adjustment is_home home_strength r =
     (case home_adj home_strength of
        None \<Rightarrow> Inl (KeyError home_strength)
      | Some h \<Rightarrow>
          bindE (num (o_pass r)) (\<lambda>op.
          bindE (num (o_run r)) (\<lambda>or.
          if is_home
          then Inr (r\<lparr>o_pass := PFloat (op + h), o_run := PFloat (or + h)\<rparr>)
          else Inr (r\<lparr>o_pass := PFloat (op - h), o_run := PFloat (or - h)\<rparr>))))"

text \<open>Lines 378-405: net efficiency, the pass rate cap, the score and the result.\<close>

definition finish :: "real \<Rightarrow> running \<Rightarrow> error + projection" where
  "finish pts_per_play_base r =
     bindE (num (o_pass r)) (\<lambda>op.
     bindE (num (d_pass r)) (\<lambda>dp.
     bindE (num (o_run r)) (\<lambda>or.
     bindE (num (d_run r)) (\<lambda>dr.
     (let net_pass_epa = calculate_net_epa op dp;
          net_run_epa = calculate_net_epa or dr;
          final_pass_rate = max 0.35 (min 0.75 (expected_pass_rate r));
          final_run_rate = 1.0 - final_pass_rate;
          total_matchup_epa = (final_pass_rate * net_pass_epa) + (final_run_rate * net_run_epa);
          expected_pass_attempts = final_pass_rate * expected_plays r;
          base_score = (pts_per_play_base + total_matchup_epa) * expected_plays r
      in
      bindE (num (pass_success r)) (\<lambda>ps.
      bindE (num (run_success r)) (\<lambda>rs.
      (let blended_success = (final_pass_rate * ps) + (final_run_rate * rs);
           success_adjustment = calculate_success_rate_adjustment blended_success 0.46 55;
           projected_score = base_score + success_adjustment
       in Inr \<lparr>score = projected_score,
               pass_rate = final_pass_rate,
               plays = expected_plays r,
               pass_attempts = expected_pass_attempts,
               matchup_epa = total_matchup_epa,
               success_rate = blended_success,
               success_adjustment = success_adjustment\<rparr>))))))))"

text \<open>The running values just before the home field adjustment, and just before the
  net efficiency combination.\<close>

definition before_home_field ::
  "stats \<Rightarrow> stats \<Rightarrow> int \<Rightarrow> int \<Rightarrow> real \<Rightarrow> bool \<Rightarrow> int \<Rightarrow> int \<Rightarrow> int \<Rightarrow> real
     \<Rightarrow> pyval \<Rightarrow> pyval \<Rightarrow> pyval \<Rightarrow> error + running" where
  "before_home_field team_stats opp_stats team_games_played opp_games_played spread
       qb_out elite_wr_out ol_missing edge_missing league_avg_pass_rate
       pace_override opp_pace_override def_pass_rate_override =
     bindE (gather_inputs team_stats opp_stats team_games_played opp_games_played spread
              league_avg_pass_rate pace_override opp_pace_override def_pass_rate_override)
           (apply_injuries qb_out elite_wr_out ol_missing edge_missing)"

definition before_combination ::
  "stats \<Rightarrow> stats \<Rightarrow> bool \<Rightarrow> int \<Rightarrow> int \<Rightarrow> real \<Rightarrow> bool \<Rightarrow> int \<Rightarrow> int \<Rightarrow> int \<Rightarrow> real
     \<Rightarrow> string \<Rightarrow> pyval \<Rightarrow> pyval \<Rightarrow> pyval \<Rightarrow> error + running" where
  "before_combination team_stats opp_stats is_home team_games_played opp_games_played spread
       qb_out elite_wr_out ol_missing edge_missing league_avg_pass_rate home_strength
       pace_override opp_pace_override def_pass_rate_override =
     bindE (before_home_field team_stats opp_stats team_games_played opp_games_played spread
              qb_out elite_wr_out ol_missing edge_missing league_avg_pass_rate
              pace_override opp_pace_override def_pass_rate_override)
           (home_field_adjustment is_home home_strength)"

definition project_team_score ::
  "stats \<Rightarrow> stats \<Rightarrow> bool \<Rightarrow> int \<Rightarrow> int \<Rightarrow> real \<Rightarrow> bool \<Rightarrow> int \<Rightarrow> int \<Rightarrow> int \<Rightarrow> real \<Rightarrow> real
     \<Rightarrow> string \<Rightarrow> pyval \<Rightarrow> pyval \<Rightarrow> pyval \<Rightarrow> error + projection" where
  "project_team_score team_stats opp_stats is_home team_games_played opp_games_played spread
       qb_out elite_wr_out ol_missing edge_missing pts_per_play_base league_avg_pass_rate
       home_strength pace_override opp_pace_override def_pass_rate_override =
     bindE (before_combination team_stats opp_stats is_home team_games_played opp_games_played
              spread qb_out elite_wr_out ol_missing edge_missing league_avg_pass_rate
              home_strength pace_override opp_pace_override def_pass_rate_override)
           (finish pts_per_play_base)"

section \<open>The game total\<close>

text \<open>
  The end of \<^verbatim>\<open>get_game_projection\<close> (lines 557-600). Everything before line 557 reads
  the tables and the prompts and calls the functions above; its results, the two
  projections and the weather adjustment, are the parameters here. The function's
  variables are the fields of \<open>game\<close>; what it prints under a condition is recorded,
  in order, as a list of lines without their formatted numbers. The header and the two
  per-team blocks (lines 561-571) are printed unconditionally and are left out.
\<close>

datatype line =
  BaseAndFinalTotal | ProjectedTotal | HighScoringGame | LowScoringGame
  | HighPassVolume | WeatherImpact | HighSuccessRates | LowSuccessRates

record game =
  team_a_proj :: projection
  team_b_proj :: projection
  weather_adjustment :: real
  base_total :: real
  weather_adjusted_total :: real
  printed :: "line list"

text \<open>Lines 557-558.\<close>

definition totals :: "projection \<Rightarrow> projection \<Rightarrow> real \<Rightarrow> game" where
  "totals a b w =
     (let base = score a + score b in
      \<lparr>team_a_proj = a, team_b_proj = b, weather_adjustment = w,
       base_total = base, weather_adjusted_total = base - w, printed = []\<rparr>)"

text \<open>Lines 573-580.\<close>

definition print_totals :: "game \<Rightarrow> game" where
  "print_totals g =
     (if weather_adjustment g > 0
      then g\<lparr>printed := printed g @ [BaseAndFinalTotal]\<rparr>
      else g\<lparr>printed := printed g @ [ProjectedTotal]\<rparr>)"

text \<open>Lines 584-587.\<close>

definition total_insight :: "game \<Rightarrow> game" where
  "total_insight g =
     (if weather_adjusted_total g \<ge> 48 then g\<lparr>printed := printed g @ [HighScoringGame]\<rparr>
      else if weather_adjusted_total g \<le> 40 then g\<lparr>printed := printed g @ [LowScoringGame]\<rparr>
      else g)"

text \<open>Lines 589-591.\<close>

definition pass_volume_insight :: "game \<Rightarrow> game" where
  "pass_volume_insight g =
     (let total_pass_attempts = pass_attempts (team_a_proj g) + pass_attempts (team_b_proj g) in
      if total_pass_attempts \<ge> 80 then g\<lparr>printed := printed g @ [HighPassVolume]\<rparr> else g)"

text \<open>Lines 593-594.\<close>

definition weather_insight :: "game \<Rightarrow> game" where
  "weather_insight g =
     (if weather_adjustment g \<ge> 3 then g\<lparr>printed := printed g @ [WeatherImpact]\<rparr> else g)"

text \<open>Lines 596-600.\<close>

definition success_insight :: "game \<Rightarrow> game" where
  "success_insight g =
     (let avg_success = (success_rate (team_a_proj g) + success_rate (team_b_proj g)) / 2 in
      if avg_success \<ge> 0.48 then g\<lparr>printed := printed g @ [HighSuccessRates]\<rparr>
      else if avg_success \<le> 0.42 then g\<lparr>printed := printed g @ [LowSuccessRates]\<rparr>
      else g)"

definition betting_insights :: "game \<Rightarrow> game" where
  "betting_insights g =
     success_insight (weather_insight (pass_volume_insight (total_insight g)))"

definition get_game_projection :: "projection \<Rightarrow> projection \<Rightarrow> real \<Rightarrow> game" where
  "get_game_projection team_a team_b weather =
     betting_insights (print_totals (totals team_a team_b weather))"

section \<open>Binary64 arithmetic\<close>

text \<open>
  Line 9 once more, now with the rounding of Python's floats, which are IEEE 754 binary64
  numbers: a literal, a product, a sum and a quotient are each the exact value rounded to
  the nearest number with a 53-bit significand, ties going to the even significand. A
  double is modelled as the real number it denotes. The model has no exponent bounds: it
  agrees with binary64 wherever the exact value rounded is zero or has a magnitude from
  \<open>2 powi (- 1022)\<close> up to below \<open>2 powi 1023\<close> (predicate \<open>fits\<close>), so that
  neither underflow nor overflow occurs; infinities and NaN are not modelled.
\<close>

text \<open>Rounding to the nearest integer, ties to even.\<close>

definition round_even :: "real \<Rightarrow> int" where
  "round_even x =
     (let f = \<lfloor>x\<rfloor>; r = x - of_int f in
      if r < 1 / 2 then f else if r > 1 / 2 then f + 1 else if even f then f else f + 1)"

text \<open>The exponent \<open>e\<close> with \<open>2 powi e \<le> \<bar>x\<bar> < 2 powi (e + 1)\<close>, for \<open>x\<close> not zero.\<close>

definition binade :: "real \<Rightarrow> int" where
  "binade x = (if \<bar>x\<bar> \<ge> 1 then bitlen \<lfloor>\<bar>x\<bar>\<rfloor> - 1 else - bitlen (\<lceil>1 / \<bar>x\<bar>\<rceil> - 1))"

text \<open>The nearest double: the significand is \<open>x\<close> in units of \<open>2 powi (e - 52)\<close>.\<close>

definition round_double :: "real \<Rightarrow> real" where
  "round_double x =
     (if x = 0 then 0
      else (let u = 2 powi (binade x - 52) in of_int (round_even (x / u)) * u))"

text \<open>The float operations \<^verbatim>\<open>*\<close>, \<^verbatim>\<open>+\<close> and \<^verbatim>\<open>/\<close> on doubles.\<close>

definition fmul :: "real \<Rightarrow> real \<Rightarrow> real" where
  "fmul a b = round_double (a * b)"

definition fadd :: "real \<Rightarrow> real \<Rightarrow> real" where
  "fadd a b = round_double (a + b)"

definition fdiv :: "real \<Rightarrow> real \<Rightarrow> real" where
  "fdiv a b = round_double (a / b)"

text \<open>
  \<^verbatim>\<open>calculate_net_epa\<close> (lines 4-9) on doubles:
  \<^verbatim>\<open>((off_epa * 1.6) + (def_epa_allowed * 1.0)) / 2.6\<close>.
\<close>

definition calculate_net_epa_double :: "real \<Rightarrow> real \<Rightarrow> real" where
  "calculate_net_epa_double off_epa def_epa_allowed =
     fdiv (fadd (fmul off_epa (round_double 1.6)) (fmul def_epa_allowed (round_double 1.0)))
          (round_double 2.6)"

text \<open>
  The exact values that this computation rounds, in order: the two products, the sum and
  the quotient. A computation stays within the range of binary64 when they all fit.
\<close>

definition net_epa_steps :: "real \<Rightarrow> real \<Rightarrow> real list" where
  "net_epa_steps off_epa def_epa_allowed =
     [off_epa * round_double 1.6,
      def_epa_allowed * round_double 1.0,
      fmul off_epa (round_double 1.6) + fmul def_epa_allowed (round_double 1.0),
      fadd (fmul off_epa (round_double 1.6)) (fmul def_epa_allowed (round_double 1.0))
        / round_double 2.6]"

definition fits :: "real \<Rightarrow> bool" where
  "fits z \<longleftrightarrow> z = 0 \<or> (2 powi (- 1022) \<le> \<bar>z\<bar> \<and> \<bar>z\<bar> < 2 powi 1023)"

section \<open>Notions used in the statements\<close>

text \<open>
  The record that the merge builds for a team found in none of the five tables: every
  statistic at its league-average default, \<^verbatim>\<open>pace\<close> and \<^verbatim>\<open>def_pass_rate_against\<close>
  holding \<^verbatim>\<open>None\<close>. It is the example input of the evaluations below.
\<close>

definition league_average_record :: stats where
  "league_average_record = merge_team_record Map.empty Map.empty Map.empty Map.empty Map.empty"

text \<open>
  The keys that \<^verbatim>\<open>project_team_score\<close> reads by subscript (lines 322-336): ten from the
  team's record, four from the opponent's. With \<^verbatim>\<open>def_pass_rate_against\<close> they are the
  fields that enter float arithmetic; \<open>no_none\<close> says that a dictionary holds
  \<^verbatim>\<open>None\<close> under none of them, \<open>all_floats\<close> that the running values are all floats.
\<close>

definition team_fields :: "string list" where
  "team_fields = [''pass_rate'', ''proe'', ''season_pass_epa'', ''last5_pass_epa'',
     ''season_run_epa'', ''last5_run_epa'', ''season_pass_success'', ''last5_pass_success'',
     ''season_run_success'', ''last5_run_success'']"

definition opp_fields :: "string list" where
  "opp_fields = [''def_season_pass_epa'', ''def_last5_pass_epa'', ''def_season_run_epa'',
     ''def_last5_run_epa'']"

definition read_fields :: "string list" where
  "read_fields = team_fields @ opp_fields @ [''def_pass_rate_against'']"

definition no_none :: "stats \<Rightarrow> bool" where
  "no_none d \<longleftrightarrow> list_all (\<lambda>k. d k \<noteq> Some PNone) read_fields"

definition all_floats :: "running \<Rightarrow> bool" where
  "all_floats r \<longleftrightarrow> o_pass r \<noteq> PNone \<and> o_run r \<noteq> PNone \<and> d_pass r \<noteq> PNone \<and>
     d_run r \<noteq> PNone \<and> pass_success r \<noteq> PNone \<and> run_success r \<noteq> PNone"

text \<open>The effect of the quarterback adjustment (lines 348-352) on the running values.\<close>

definition qb_shift :: "running \<Rightarrow> running" where
  "qb_shift r = r\<lparr>o_pass := (case o_pass r of PNone \<Rightarrow> PNone | PFloat x \<Rightarrow> PFloat (x - 0.20)),
                  pass_success := (case pass_success r of PNone \<Rightarrow> PNone | PFloat p \<Rightarrow> PFloat (p - 0.05)),
                  expected_pass_rate := expected_pass_rate r - 0.07,
                  expected_plays := expected_plays r - 3.0\<rparr>"

section \<open>Basic facts\<close>

lemma bindE_Inl [simp]: "bindE (Inl e) f = Inl e"
  by (simp add: bindE_def)

lemma bindE_Inr [simp]: "bindE (Inr v) f = f v"
  by (simp add: bindE_def)

lemma bindE_eq_Inr: "bindE m f = Inr y \<longleftrightarrow> (\<exists>x. m = Inr x \<and> f x = Inr y)"
  by (cases m) simp_all

lemma num_eq_Inr: "num v = Inr x \<longleftrightarrow> v = PFloat x"
  by (cases v) auto

lemma blend_floats: "blend (PFloat a) wa (PFloat b) wb = Inr (PFloat (a * wa + b * wb))"
  by (simp add: blend_def)

section \<open>The blending functions\<close>

text \<open>
  C2. The recency-weighted blend of a season value s and a recent value r at g games
  played is s itself when g is at most 5 (whatever the recent value is, even a missing
  one), 0.65 s + 0.35 r for g from 6 to 10, 0.50 s + 0.50 r for g from 11 to 14 and
  0.40 s + 0.60 r from 15 on. The steps are hard: every g lies in exactly one of the four
  ranges, so the boundaries 5/6, 10/11 and 14/15 leave no gap and no overlap.
\<close>

theorem calculate_weighted_epa_buckets:
  "(g \<le> 5 \<longrightarrow> calculate_weighted_epa (PFloat s) v g = Inr (PFloat s)) \<and>
   (6 \<le> g \<and> g \<le> 10 \<longrightarrow>
      calculate_weighted_epa (PFloat s) (PFloat r) g = Inr (PFloat (0.65 * s + 0.35 * r))) \<and>
   (11 \<le> g \<and> g \<le> 14 \<longrightarrow>
      calculate_weighted_epa (PFloat s) (PFloat r) g = Inr (PFloat (0.50 * s + 0.50 * r))) \<and>
   (15 \<le> g \<longrightarrow>
      calculate_weighted_epa (PFloat s) (PFloat r) g = Inr (PFloat (0.40 * s + 0.60 * r))) \<and>
   (if g \<le> 5 then 1 else 0) + (if 6 \<le> g \<and> g \<le> 10 then 1 else 0)
     + (if 11 \<le> g \<and> g \<le> 14 then 1 else 0) + (if 15 \<le> g then 1 else 0) = (1::nat)"
  by (simp add: calculate_weighted_epa_def blend_floats algebra_simps)

theorem calculate_weighted_epa_buckets_witness:
  "calculate_weighted_epa (PFloat 0.10) (PFloat 0.50) 3 = Inr (PFloat 0.10) \<and>
   calculate_weighted_epa (PFloat 0.10) PNone 5 = Inr (PFloat 0.10) \<and>
   calculate_weighted_epa (PFloat 0.10) (PFloat 0.50) 6 = Inr (PFloat 0.24) \<and>
   calculate_weighted_epa (PFloat 0.10) (PFloat 0.50) 10 = Inr (PFloat 0.24) \<and>
   calculate_weighted_epa (PFloat 0.10) (PFloat 0.50) 11 = Inr (PFloat 0.30) \<and>
   calculate_weighted_epa (PFloat 0.10) (PFloat 0.50) 14 = Inr (PFloat 0.30) \<and>
   calculate_weighted_epa (PFloat 0.10) (PFloat 0.50) 15 = Inr (PFloat 0.34)"
  using calculate_weighted_epa_buckets [of 3 "0.10" "PFloat 0.50" "0.50"]
    calculate_weighted_epa_buckets [of 5 "0.10" PNone "0.50"]
    calculate_weighted_epa_buckets [of 6 "0.10" PNone "0.50"]
    calculate_weighted_epa_buckets [of 10 "0.10" PNone "0.50"]
    calculate_weighted_epa_buckets [of 11 "0.10" PNone "0.50"]
    calculate_weighted_epa_buckets [of 14 "0.10" PNone "0.50"]
    calculate_weighted_epa_buckets [of 15 "0.10" PNone "0.50"]
  by simp

text \<open>
  C4. The weather penalty is the sum of three independent components: the highest wind
  band reached (6.0 from 20 mph, 3.0 from 15, 1.0 from 10, else 0), 2.0 for a temperature
  below 0, and the precipitation lookup (heavy_rain 3.0, light_snow 2.0, heavy_snow 4.0,
  blizzard 8.0, anything else 0.0, so none and light_rain alike). It is never negative,
  and wind 20, temperature -5 and a blizzard give exactly 16.0.
\<close>

theorem weather_adjustment_components:
  "calculate_weather_adjustment w t p =
     (if w \<ge> 20 then 6.0 else if w \<ge> 15 then 3.0 else if w \<ge> 10 then 1.0 else 0)
     + (if t < 0 then 2.0 else 0)
     + (if p = ''heavy_rain'' then 3.0 else if p = ''light_snow'' then 2.0
        else if p = ''heavy_snow'' then 4.0 else if p = ''blizzard'' then 8.0 else 0.0)
   \<and> 0 \<le> calculate_weather_adjustment w t p
   \<and> calculate_weather_adjustment w t ''none'' = calculate_weather_adjustment w t ''light_rain''
   \<and> calculate_weather_adjustment 20 (-5) ''blizzard'' = 16.0"
  by (simp add: calculate_weather_adjustment_def precip_impact_def Let_def)

text \<open>
  C5. The expected pass rate is 0.6 (pass_rate + proe) + 0.4 (pass_rate +
  (def_pass_rate_against - league_avg_pass_rate)) plus a step of the spread: +0.05 from 7
  up, +0.03 from 4 to below 7, -0.04 down from -7, -0.02 above -7 down to -4, and 0
  otherwise. The neutral inputs 0.60, 0.0, 0.60, 0.60 at spread 0 give exactly 0.60.
\<close>

theorem expected_pass_rate_formula:
  "calculate_expected_pass_rate pr proe dpra lapr spread =
     0.6 * (pr + proe) + 0.4 * (pr + (dpra - lapr))
     + (if spread \<ge> 7 then 0.05
        else if 4 \<le> spread \<and> spread < 7 then 0.03
        else if spread \<le> -7 then -0.04
        else if -7 < spread \<and> spread \<le> -4 then -0.02
        else 0)
   \<and> calculate_expected_pass_rate 0.60 0.0 0.60 0.60 0 = 0.60"
  by (simp add: calculate_expected_pass_rate_def Let_def mult.commute)

section \<open>The stages of the projection\<close>

lemma getitem_eq_Inr: "getitem d k = Inr v \<longleftrightarrow> d k = Some v"
  by (simp add: getitem_def split: option.splits)

lemma weighted_field_Inr:
  "weighted_field d k1 k2 g = Inr v \<Longrightarrow> d k1 \<noteq> None \<and> d k2 \<noteq> None"
  by (auto simp: weighted_field_def bindE_eq_Inr getitem_eq_Inr)

lemma gather_inputs_Inr:
  assumes "gather_inputs ts os tgp ogp spread lapr po opo dpo = Inr r"
  shows "\<exists>tpr pr d.
      ts ''pass_rate'' = Some (PFloat tpr) \<and> ts ''proe'' = Some (PFloat pr) \<and>
      resolve dpo os ''def_pass_rate_against'' (PFloat 0.60) = PFloat d \<and>
      expected_pass_rate r = calculate_expected_pass_rate tpr pr d lapr spread \<and>
      expected_plays r = calculate_expected_plays
         (zero_pace_check (resolve po ts ''pace'' (PFloat 65.0)))
         (zero_pace_check (resolve opo os ''pace'' (PFloat 65.0))) spread"
  using assms
  by (auto simp: gather_inputs_def Let_def bindE_eq_Inr getitem_eq_Inr num_eq_Inr)

lemma apply_injuries_closed:
  "apply_injuries qb wr ol edge r =
     bindE (num (o_pass r)) (\<lambda>x.
     bindE (num (pass_success r)) (\<lambda>p.
     bindE (if edge \<ge> 1 then num (d_pass r) else Inr 0) (\<lambda>d.
     Inr (r\<lparr>o_pass := PFloat (x - (if qb then 0.20 else 0) - real_of_int wr * 0.06
                  - real_of_int ol * 0.02 + (if edge \<ge> 1 then 0.03 else 0)),
            pass_success := PFloat (p - (if qb then 0.05 else 0) - real_of_int wr * 0.02
                  - (if ol \<ge> 2 then 0.03 else 0)),
            expected_pass_rate := expected_pass_rate r - (if qb then 0.07 else 0)
                  - real_of_int wr * 0.02 - (if ol \<ge> 2 then 0.02 else 0)
                  + (if edge \<ge> 1 then 0.025 else 0),
            expected_plays := expected_plays r - (if qb then 3.0 else 0),
            d_pass := (if edge \<ge> 1 then PFloat (d + 0.03) else d_pass r)\<rparr>))))"
proof (cases "o_pass r")
  case PNone
  then show ?thesis
    by (simp add: apply_injuries_def qb_adjust_def wr_adjust_def)
next
  case op: (PFloat x)
  show ?thesis
  proof (cases "pass_success r")
    case PNone
    with op show ?thesis
      by (simp add: apply_injuries_def qb_adjust_def wr_adjust_def)
  next
    case ps: (PFloat p)
    show ?thesis
    proof (cases "d_pass r")
      case PNone
      with op ps show ?thesis
        by (simp add: apply_injuries_def qb_adjust_def wr_adjust_def ol_adjust_def
            edge_adjust_def Let_def)
    next
      case (PFloat d)
      with op ps show ?thesis
        by (simp add: apply_injuries_def qb_adjust_def wr_adjust_def ol_adjust_def
            edge_adjust_def Let_def)
    qed
  qed
qed

lemma home_adj_None:
  "home_adj hs = None \<longleftrightarrow> \<not> (hs = ''weak'' \<or> hs = ''average'' \<or> hs = ''strong'')"
  by (simp add: home_adj_def)

lemma home_field_adjustment_Inr:
  assumes "home_field_adjustment is_home hs r = Inr r'"
  shows "expected_pass_rate r' = expected_pass_rate r \<and> expected_plays r' = expected_plays r \<and>
     d_pass r' = d_pass r \<and> d_run r' = d_run r \<and>
     pass_success r' = pass_success r \<and> run_success r' = run_success r \<and>
     (hs = ''weak'' \<or> hs = ''average'' \<or> hs = ''strong'')"
proof -
  from assms obtain h where h: "home_adj hs = Some h"
    by (auto simp: home_field_adjustment_def split: option.splits)
  then have "home_adj hs \<noteq> None" by simp
  then have v: "hs = ''weak'' \<or> hs = ''average'' \<or> hs = ''strong''"
    by (simp only: home_adj_None not_not)
  from assms h have "expected_pass_rate r' = expected_pass_rate r \<and>
     expected_plays r' = expected_plays r \<and> d_pass r' = d_pass r \<and> d_run r' = d_run r \<and>
     pass_success r' = pass_success r \<and> run_success r' = run_success r"
    by (auto simp: home_field_adjustment_def bindE_eq_Inr split: if_splits)
  with v show ?thesis by blast
qed

lemma finish_Inr:
  assumes "finish ppb r = Inr res"
  shows "pass_rate res = max 0.35 (min 0.75 (expected_pass_rate r)) \<and>
     plays res = expected_plays r \<and>
     pass_attempts res = pass_rate res * plays res \<and>
     score res = (ppb + matchup_epa res) * plays res
        + calculate_success_rate_adjustment (success_rate res) 0.46 55 \<and>
     success_adjustment res = calculate_success_rate_adjustment (success_rate res) 0.46 55 \<and>
     (\<exists>op dp orn dr ps rs.
        o_pass r = PFloat op \<and> d_pass r = PFloat dp \<and> o_run r = PFloat orn \<and>
        d_run r = PFloat dr \<and> pass_success r = PFloat ps \<and> run_success r = PFloat rs \<and>
        matchup_epa res = pass_rate res * calculate_net_epa op dp
           + (1 - pass_rate res) * calculate_net_epa orn dr \<and>
        success_rate res = pass_rate res * ps + (1 - pass_rate res) * rs)"
  using assms
  by (auto simp: finish_def Let_def bindE_eq_Inr num_eq_Inr)

lemmas eval_defs =
  project_team_score_def before_combination_def before_home_field_def gather_inputs_def
  weighted_field_def getitem_def get_default_def resolve_def calculate_weighted_epa_def
  blend_def calculate_expected_pass_rate_def calculate_expected_plays_def
  apply_injuries_def qb_adjust_def wr_adjust_def ol_adjust_def edge_adjust_def
  home_field_adjustment_def home_adj_def finish_def calculate_net_epa_def
  calculate_success_rate_adjustment_def Let_def league_average_record_def
  merge_team_record_def

lemma project_team_score_Inr:
  assumes "project_team_score ts os is_home tgp ogp spread qb wr ol edge ppb lapr hs po opo dpo
             = Inr res"
  shows "\<exists>g i r.
     gather_inputs ts os tgp ogp spread lapr po opo dpo = Inr g \<and>
     apply_injuries qb wr ol edge g = Inr i \<and>
     home_field_adjustment is_home hs i = Inr r \<and>
     before_home_field ts os tgp ogp spread qb wr ol edge lapr po opo dpo = Inr i \<and>
     before_combination ts os is_home tgp ogp spread qb wr ol edge lapr hs po opo dpo = Inr r \<and>
     finish ppb r = Inr res"
  using assms
  by (auto simp: project_team_score_def before_combination_def before_home_field_def
      bindE_eq_Inr)

lemma apply_injuries_pass_rate:
  assumes "apply_injuries qb wr ol edge r = Inr r'"
  shows "expected_pass_rate r' = expected_pass_rate r - (if qb then 0.07 else 0)
           - real_of_int wr * 0.02 - (if ol \<ge> 2 then 0.02 else 0)
           + (if edge \<ge> 1 then 0.025 else 0) \<and>
         expected_plays r' = expected_plays r - (if qb then 3.0 else 0)"
  using assms unfolding apply_injuries_closed
  by (auto simp: bindE_eq_Inr)

lemma pass_rate_clamped_raw:
  assumes "project_team_score ts os is_home tgp ogp spread qb wr ol edge ppb lapr hs po opo dpo
             = Inr res"
    and "ts ''pass_rate'' = Some (PFloat tpr)" and "ts ''proe'' = Some (PFloat pr)"
    and "resolve dpo os ''def_pass_rate_against'' (PFloat 0.60) = PFloat d"
    and "before_combination ts os is_home tgp ogp spread qb wr ol edge lapr hs po opo dpo = Inr r"
  shows "expected_pass_rate r = calculate_expected_pass_rate tpr pr d lapr spread
        - (if qb then 0.07 else 0) - real_of_int wr * 0.02 - (if ol \<ge> 2 then 0.02 else 0)
        + (if edge \<ge> 1 then 0.025 else 0)"
proof -
  from project_team_score_Inr [OF assms(1)] obtain g i r' where
    g: "gather_inputs ts os tgp ogp spread lapr po opo dpo = Inr g" and
    i: "apply_injuries qb wr ol edge g = Inr i" and
    h: "home_field_adjustment is_home hs i = Inr r'" and
    bc: "before_combination ts os is_home tgp ogp spread qb wr ol edge lapr hs po opo dpo = Inr r'"
    by blast
  from bc assms(5) have rr: "r' = r" by simp
  from gather_inputs_Inr [OF g] assms(2-4)
  have raw: "expected_pass_rate g = calculate_expected_pass_rate tpr pr d lapr spread"
    by auto
  have "expected_pass_rate r = expected_pass_rate i"
    using home_field_adjustment_Inr [OF h] rr by simp
  with apply_injuries_pass_rate [OF i] raw show ?thesis by simp
qed

text \<open>
  C3. Whenever \<^verbatim>\<open>project_team_score\<close> returns a result, its \<open>pass_rate\<close> is the raw
  expected pass rate, after all injury adjustments, clamped to [0.35, 0.75]; so it lies
  between 0.35 and 0.75. The run rate used for the matchup EPA and the blended success rate
  is one minus that pass rate. The clamp is applied once, after the injury adjustments: the
  value clamped is the unclamped result of \<^verbatim>\<open>calculate_expected_pass_rate\<close> (which
  itself may leave the range, 0.95 in the example) minus and plus the injury terms.
\<close>

theorem pass_rate_clamped_once:
  assumes "project_team_score ts os is_home tgp ogp spread qb wr ol edge ppb lapr hs po opo dpo
             = Inr res"
  shows "\<exists>tpr pr d r.
     ts ''pass_rate'' = Some (PFloat tpr) \<and> ts ''proe'' = Some (PFloat pr) \<and>
     resolve dpo os ''def_pass_rate_against'' (PFloat 0.60) = PFloat d \<and>
     before_combination ts os is_home tgp ogp spread qb wr ol edge lapr hs po opo dpo = Inr r \<and>
     expected_pass_rate r = calculate_expected_pass_rate tpr pr d lapr spread
        - (if qb then 0.07 else 0) - real_of_int wr * 0.02 - (if ol \<ge> 2 then 0.02 else 0)
        + (if edge \<ge> 1 then 0.025 else 0) \<and>
     pass_rate res = max 0.35 (min 0.75 (expected_pass_rate r)) \<and>
     0.35 \<le> pass_rate res \<and> pass_rate res \<le> 0.75 \<and>
     pass_attempts res = pass_rate res * plays res \<and>
     (\<exists>op dp orn dr ps rs.
        o_pass r = PFloat op \<and> d_pass r = PFloat dp \<and> o_run r = PFloat orn \<and>
        d_run r = PFloat dr \<and> pass_success r = PFloat ps \<and> run_success r = PFloat rs \<and>
        matchup_epa res = pass_rate res * calculate_net_epa op dp
           + (1 - pass_rate res) * calculate_net_epa orn dr \<and>
        success_rate res = pass_rate res * ps + (1 - pass_rate res) * rs) \<and>
     calculate_expected_pass_rate 0.90 0.0 0.60 0.60 7 = 0.95"
proof -
  from project_team_score_Inr [OF assms] obtain g i r where
    g: "gather_inputs ts os tgp ogp spread lapr po opo dpo = Inr g" and
    i: "apply_injuries qb wr ol edge g = Inr i" and
    h: "home_field_adjustment is_home hs i = Inr r" and
    bc: "before_combination ts os is_home tgp ogp spread qb wr ol edge lapr hs po opo dpo = Inr r" and
    f: "finish ppb r = Inr res"
    by blast
  from gather_inputs_Inr [OF g] obtain tpr pr d where
    in1: "ts ''pass_rate'' = Some (PFloat tpr)" and in2: "ts ''proe'' = Some (PFloat pr)" and
    in3: "resolve dpo os ''def_pass_rate_against'' (PFloat 0.60) = PFloat d" and
    raw: "expected_pass_rate g = calculate_expected_pass_rate tpr pr d lapr spread"
    by blast
  have "expected_pass_rate r = expected_pass_rate i"
    using home_field_adjustment_Inr [OF h] by simp
  with apply_injuries_pass_rate [OF i] raw
  have adj: "expected_pass_rate r = calculate_expected_pass_rate tpr pr d lapr spread
        - (if qb then 0.07 else 0) - real_of_int wr * 0.02 - (if ol \<ge> 2 then 0.02 else 0)
        + (if edge \<ge> 1 then 0.025 else 0)"
    by simp
  note fin = finish_Inr [OF f]
  from fin have clamp: "pass_rate res = max 0.35 (min 0.75 (expected_pass_rate r))"
    by blast
  then have lo: "0.35 \<le> pass_rate res" and hi: "pass_rate res \<le> 0.75"
    by simp_all
  have unclamped: "calculate_expected_pass_rate 0.90 0.0 0.60 0.60 7 = 0.95"
    by (simp add: calculate_expected_pass_rate_def Let_def)
  from fin have rest: "pass_attempts res = pass_rate res * plays res \<and>
     (\<exists>op dp orn dr ps rs.
        o_pass r = PFloat op \<and> d_pass r = PFloat dp \<and> o_run r = PFloat orn \<and>
        d_run r = PFloat dr \<and> pass_success r = PFloat ps \<and> run_success r = PFloat rs \<and>
        matchup_epa res = pass_rate res * calculate_net_epa op dp
           + (1 - pass_rate res) * calculate_net_epa orn dr \<and>
        success_rate res = pass_rate res * ps + (1 - pass_rate res) * rs)"
    by blast
  from in1 in2 in3 bc adj clamp lo hi rest unclamped show ?thesis
    by blast
qed

lemma eval_pass_heavy:
  "\<exists>res. project_team_score (league_average_record(''pass_rate'' \<mapsto> PFloat 0.90))
        league_average_record True 8 8 7 False 0 0 0 0.365 0.60 ''average''
        (PFloat 65.0) (PFloat 65.0) (PFloat 0.60) = Inr res"
  by (simp add: eval_defs)

theorem pass_rate_clamped_once_witness:
  "\<exists>res. project_team_score (league_average_record(''pass_rate'' \<mapsto> PFloat 0.90))
        league_average_record True 8 8 7 False 0 0 0 0.365 0.60 ''average''
        (PFloat 65.0) (PFloat 65.0) (PFloat 0.60) = Inr res \<and>
     pass_rate res = 0.75 \<and> pass_attempts res = 0.75 * plays res"
proof -
  from eval_pass_heavy obtain res where
    r: "project_team_score (league_average_record(''pass_rate'' \<mapsto> PFloat 0.90))
        league_average_record True 8 8 7 False 0 0 0 0.365 0.60 ''average''
        (PFloat 65.0) (PFloat 65.0) (PFloat 0.60) = Inr res"
    by blast
  from pass_rate_clamped_once [OF r] obtain tpr pr d and rr :: running where
    a: "(league_average_record(''pass_rate'' \<mapsto> PFloat 0.90)) ''pass_rate'' = Some (PFloat tpr)" and
    b: "(league_average_record(''pass_rate'' \<mapsto> PFloat 0.90)) ''proe'' = Some (PFloat pr)" and
    c: "resolve (PFloat 0.60) league_average_record ''def_pass_rate_against'' (PFloat 0.60)
          = PFloat d" and
    e: "expected_pass_rate rr = calculate_expected_pass_rate tpr pr d 0.60 7
        - (if False then 0.07 else 0) - real_of_int 0 * 0.02 - (if (0::int) \<ge> 2 then 0.02 else 0)
        + (if (0::int) \<ge> 1 then 0.025 else 0)" and
    f: "pass_rate res = max 0.35 (min 0.75 (expected_pass_rate rr))" and
    g: "pass_attempts res = pass_rate res * plays res"
    by blast
  from a have tpr: "tpr = 0.90" by simp
  from b have pr: "pr = 0"
    by (simp add: league_average_record_def merge_team_record_def get_default_def)
  from c have d: "d = 0.60" by (simp add: resolve_def)
  from e have "expected_pass_rate rr = 0.95"
    unfolding tpr pr d by (simp add: calculate_expected_pass_rate_def Let_def)
  with f have "pass_rate res = 0.75" by simp
  with r g show ?thesis by simp
qed

section \<open>The home venue lookup\<close>

lemma num_Inl: "num v = Inl e \<Longrightarrow> e = TypeError"
  by (cases v) auto

lemma bindE_eq_Inl: "bindE m f = Inl e \<longleftrightarrow> m = Inl e \<or> (\<exists>x. m = Inr x \<and> f x = Inl e)"
  by (cases m) simp_all

lemma finish_Inl: "finish ppb r = Inl e \<Longrightarrow> e = TypeError"
  by (auto simp: finish_def Let_def bindE_eq_Inl dest: num_Inl)

lemma home_field_adjustment_KeyError:
  "home_field_adjustment is_home hs r = Inl (KeyError k) \<longleftrightarrow>
     k = hs \<and> \<not> (hs = ''weak'' \<or> hs = ''average'' \<or> hs = ''strong'')"
proof (cases "home_adj hs")
  case None
  then show ?thesis
    using home_adj_None [of hs] by (auto simp: home_field_adjustment_def)
next
  case (Some h)
  then have "home_adj hs \<noteq> None" by simp
  then have v: "hs = ''weak'' \<or> hs = ''average'' \<or> hs = ''strong''"
    by (simp only: home_adj_None not_not)
  have "home_field_adjustment is_home hs r \<noteq> Inl (KeyError k)"
    using Some by (auto simp: home_field_adjustment_def bindE_eq_Inl dest: num_Inl)
  with v show ?thesis by blast
qed

text \<open>
  C9. The home venue lookup succeeds exactly for the strengths weak, average and strong:
  a call that returns a result had one of them, and for any other strength the lookup
  raises \<^verbatim>\<open>KeyError\<close> with that strength instead of defaulting. The lookup is evaluated
  whether or not the team is at home: once the statements before it have completed, the
  call raises that \<^verbatim>\<open>KeyError\<close> if and only if the strength is none of the three, for
  both values of \<open>is_home\<close>.
\<close>

theorem home_strength_lookup:
  "(project_team_score ts os is_home tgp ogp spread qb wr ol edge ppb lapr hs po opo dpo = Inr res
      \<longrightarrow> hs = ''weak'' \<or> hs = ''average'' \<or> hs = ''strong'') \<and>
   (home_field_adjustment is_home hs r = Inl (KeyError hs)
      \<longleftrightarrow> \<not> (hs = ''weak'' \<or> hs = ''average'' \<or> hs = ''strong'')) \<and>
   (before_home_field ts os tgp ogp spread qb wr ol edge lapr po opo dpo = Inr i \<longrightarrow>
      (project_team_score ts os is_home tgp ogp spread qb wr ol edge ppb lapr hs po opo dpo
          = Inl (KeyError hs)
        \<longleftrightarrow> \<not> (hs = ''weak'' \<or> hs = ''average'' \<or> hs = ''strong'')))"
proof (intro conjI impI)
  assume "project_team_score ts os is_home tgp ogp spread qb wr ol edge ppb lapr hs po opo dpo
            = Inr res"
  from project_team_score_Inr [OF this] obtain j r' where
    "home_field_adjustment is_home hs j = Inr r'"
    by blast
  from home_field_adjustment_Inr [OF this]
  show "hs = ''weak'' \<or> hs = ''average'' \<or> hs = ''strong''"
    by blast
next
  show "home_field_adjustment is_home hs r = Inl (KeyError hs)
      \<longleftrightarrow> \<not> (hs = ''weak'' \<or> hs = ''average'' \<or> hs = ''strong'')"
    by (simp add: home_field_adjustment_KeyError)
next
  assume i: "before_home_field ts os tgp ogp spread qb wr ol edge lapr po opo dpo = Inr i"
  have p: "project_team_score ts os is_home tgp ogp spread qb wr ol edge ppb lapr hs po opo dpo
      = bindE (home_field_adjustment is_home hs i) (finish ppb)"
    by (simp add: project_team_score_def before_combination_def i)
  show "project_team_score ts os is_home tgp ogp spread qb wr ol edge ppb lapr hs po opo dpo
          = Inl (KeyError hs)
        \<longleftrightarrow> \<not> (hs = ''weak'' \<or> hs = ''average'' \<or> hs = ''strong'')"
    unfolding p
    by (auto simp: bindE_eq_Inl home_field_adjustment_KeyError dest: finish_Inl)
qed

lemma eval_before_home_field:
  "\<exists>i. before_home_field league_average_record league_average_record 8 8 0 False 0 0 0 0.60
      (PFloat 65.0) (PFloat 65.0) (PFloat 0.60) = Inr i"
  by (simp add: eval_defs)

theorem home_strength_lookup_witness:
  "project_team_score league_average_record league_average_record False 8 8 0 False 0 0 0
      0.365 0.60 ''fortress'' (PFloat 65.0) (PFloat 65.0) (PFloat 0.60)
     = Inl (KeyError ''fortress'') \<and>
   project_team_score league_average_record league_average_record True 8 8 0 False 0 0 0
      0.365 0.60 ''fortress'' (PFloat 65.0) (PFloat 65.0) (PFloat 0.60)
     = Inl (KeyError ''fortress'') \<and>
   project_team_score league_average_record league_average_record False 8 8 0 False 0 0 0
      0.365 0.60 ''strong'' (PFloat 65.0) (PFloat 65.0) (PFloat 0.60)
     \<noteq> Inl (KeyError ''strong'')"
proof -
  from eval_before_home_field obtain i where
    i: "before_home_field league_average_record league_average_record 8 8 0 False 0 0 0 0.60
      (PFloat 65.0) (PFloat 65.0) (PFloat 0.60) = Inr i"
    by blast
  show ?thesis
    using i
      home_strength_lookup [of league_average_record league_average_record False 8 8 0 False
        0 0 0 "0.365" "0.60" "''fortress''" "PFloat 65.0" "PFloat 65.0" "PFloat 0.60" _ _ i]
      home_strength_lookup [of league_average_record league_average_record True 8 8 0 False
        0 0 0 "0.365" "0.60" "''fortress''" "PFloat 65.0" "PFloat 65.0" "PFloat 0.60" _ _ i]
      home_strength_lookup [of league_average_record league_average_record False 8 8 0 False
        0 0 0 "0.365" "0.60" "''strong''" "PFloat 65.0" "PFloat 65.0" "PFloat 0.60" _ _ i]
    by simp
qed

section \<open>Negative pace\<close>

lemma eval_negative_pace:
  "\<exists>res. project_team_score league_average_record league_average_record True 8 8 0 False 0 0 0
        0.365 0.60 ''average'' (PFloat (-200)) (PFloat 65.0) (PFloat 0.60) = Inr res \<and>
      plays res = -64.5 \<and> pass_attempts res < 0 \<and> score res < 0"
  by (simp add: eval_defs)

text \<open>
  C10. The zero-pace check replaces a resolved pace by 62.0 only when it is
  \<^verbatim>\<open>None\<close> or exactly 0; any other value, a negative one included, is used unchanged.
  With a negative resolved pace x the plays of the result are the play-volume average
  computed from x itself, and so a negative pace override can make plays, pass attempts
  and score negative, as the override -200 does.
\<close>

theorem negative_pace_used_unchanged:
  "zero_pace_check PNone = 62.0 \<and> zero_pace_check (PFloat 0) = 62.0 \<and>
   (x \<noteq> 0 \<longrightarrow> zero_pace_check (PFloat x) = x) \<and>
   (x < 0 \<and> resolve po ts ''pace'' (PFloat 65.0) = PFloat x \<and>
    project_team_score ts os is_home tgp ogp spread qb wr ol edge ppb lapr hs po opo dpo = Inr res
      \<longrightarrow> plays res = calculate_expected_plays x
              (zero_pace_check (resolve opo os ''pace'' (PFloat 65.0))) spread
              - (if qb then 3.0 else 0) \<and>
          pass_attempts res = pass_rate res * plays res) \<and>
   (\<exists>res. project_team_score league_average_record league_average_record True 8 8 0 False 0 0 0
        0.365 0.60 ''average'' (PFloat (-200)) (PFloat 65.0) (PFloat 0.60) = Inr res \<and>
      plays res < 0 \<and> pass_attempts res < 0 \<and> score res < 0)"
proof (intro conjI impI)
  assume a: "x < 0 \<and> resolve po ts ''pace'' (PFloat 65.0) = PFloat x \<and>
    project_team_score ts os is_home tgp ogp spread qb wr ol edge ppb lapr hs po opo dpo = Inr res"
  then have p: "project_team_score ts os is_home tgp ogp spread qb wr ol edge ppb lapr hs po opo dpo
      = Inr res" by blast
  from project_team_score_Inr [OF p] obtain g i r where
    g: "gather_inputs ts os tgp ogp spread lapr po opo dpo = Inr g" and
    i: "apply_injuries qb wr ol edge g = Inr i" and
    h: "home_field_adjustment is_home hs i = Inr r" and
    f: "finish ppb r = Inr res"
    by blast
  from a have zp: "zero_pace_check (resolve po ts ''pace'' (PFloat 65.0)) = x" by simp
  from gather_inputs_Inr [OF g] zp
  have "expected_plays g = calculate_expected_plays x
         (zero_pace_check (resolve opo os ''pace'' (PFloat 65.0))) spread"
    by auto
  with apply_injuries_pass_rate [OF i] home_field_adjustment_Inr [OF h] finish_Inr [OF f]
  show "plays res = calculate_expected_plays x
              (zero_pace_check (resolve opo os ''pace'' (PFloat 65.0))) spread
              - (if qb then 3.0 else 0)"
    by simp
  from finish_Inr [OF f] show "pass_attempts res = pass_rate res * plays res"
    by blast
next
  from eval_negative_pace
  show "\<exists>res. project_team_score league_average_record league_average_record True 8 8 0 False 0 0 0
        0.365 0.60 ''average'' (PFloat (-200)) (PFloat 65.0) (PFloat 0.60) = Inr res \<and>
      plays res < 0 \<and> pass_attempts res < 0 \<and> score res < 0"
    by auto
qed simp_all

theorem negative_pace_used_unchanged_witness:
  "\<exists>res. project_team_score league_average_record league_average_record True 8 8 0 True 0 0 0
        0.365 0.60 ''average'' (PFloat (-200)) (PFloat 65.0) (PFloat 0.60) = Inr res \<and>
      plays res = calculate_expected_plays (-200) 65.0 0 - 3.0 \<and>
      plays res = -67.5 \<and> zero_pace_check (PFloat (-200)) = -200"
proof -
  have "\<exists>res. project_team_score league_average_record league_average_record True 8 8 0 True 0 0 0
        0.365 0.60 ''average'' (PFloat (-200)) (PFloat 65.0) (PFloat 0.60) = Inr res"
    by (simp add: eval_defs)
  then obtain res where
    r: "project_team_score league_average_record league_average_record True 8 8 0 True 0 0 0
        0.365 0.60 ''average'' (PFloat (-200)) (PFloat 65.0) (PFloat 0.60) = Inr res"
    by blast
  have rs: "resolve (PFloat (-200)) league_average_record ''pace'' (PFloat 65.0) = PFloat (-200)"
    by (simp add: resolve_def)
  have ro: "zero_pace_check (resolve (PFloat 65.0) league_average_record ''pace'' (PFloat 65.0)) = 65.0"
    by (simp add: resolve_def)
  from negative_pace_used_unchanged [where x = "-200" and po = "PFloat (-200)"
      and ts = league_average_record and os = league_average_record and is_home = True
      and tgp = 8 and ogp = 8 and spread = 0 and qb = True and wr = 0 and ol = 0 and edge = 0
      and ppb = "0.365" and lapr = "0.60" and hs = "''average''" and opo = "PFloat 65.0"
      and dpo = "PFloat 0.60" and res = res] r rs
  have "plays res = calculate_expected_plays (-200)
              (zero_pace_check (resolve (PFloat 65.0) league_average_record ''pace'' (PFloat 65.0))) 0
              - 3.0 \<and> zero_pace_check (PFloat (-200)) = -200"
    by simp
  then have "plays res = calculate_expected_plays (-200) 65.0 0 - 3.0 \<and>
      zero_pace_check (PFloat (-200)) = -200"
    unfolding ro by simp
  moreover have "calculate_expected_plays (-200) 65.0 0 - 3.0 = -67.5"
    by (simp add: calculate_expected_plays_def Let_def)
  ultimately show ?thesis using r by simp
qed

section \<open>The quarterback adjustment\<close>

lemma apply_injuries_qb:
  assumes "apply_injuries False wr ol edge g = Inr i"
  shows "apply_injuries True wr ol edge g = Inr (qb_shift i)"
  using assms unfolding apply_injuries_closed qb_shift_def
  by (auto simp: bindE_eq_Inr num_eq_Inr split: if_splits)

lemma home_field_adjustment_qb:
  assumes "home_field_adjustment is_home hs i = Inr r"
  shows "home_field_adjustment is_home hs (qb_shift i) = Inr (qb_shift r)"
proof -
  from assms obtain h x y where h: "home_adj hs = Some h" and
    x: "o_pass i = PFloat x" and y: "o_run i = PFloat y"
    by (auto simp: home_field_adjustment_def bindE_eq_Inr num_eq_Inr split: option.splits)
  show ?thesis
  proof (cases is_home)
    case True
    with assms h x y have "r = i\<lparr>o_pass := PFloat (x + h), o_run := PFloat (y + h)\<rparr>"
      by (simp add: home_field_adjustment_def)
    with True h x y show ?thesis
      by (simp add: home_field_adjustment_def qb_shift_def)
  next
    case False
    with assms h x y have "r = i\<lparr>o_pass := PFloat (x - h), o_run := PFloat (y - h)\<rparr>"
      by (simp add: home_field_adjustment_def)
    with False h x y show ?thesis
      by (simp add: home_field_adjustment_def qb_shift_def)
  qed
qed

lemma finish_qb:
  assumes "finish ppb r = Inr res"
  shows "\<exists>res'. finish ppb (qb_shift r) = Inr res' \<and>
           pass_rate res' = max 0.35 (min 0.75 (expected_pass_rate r - 0.07)) \<and>
           plays res' = plays res - 3.0"
  using assms unfolding finish_def qb_shift_def
  by (auto simp: bindE_eq_Inr num_eq_Inr Let_def)

lemma qb_shift_fields:
  "o_pass r = PFloat x \<Longrightarrow> o_pass (qb_shift r) = PFloat (x - 0.20)"
  "pass_success r = PFloat p \<Longrightarrow> pass_success (qb_shift r) = PFloat (p - 0.05)"
  "expected_pass_rate (qb_shift r) = expected_pass_rate r - 0.07"
  "expected_plays (qb_shift r) = expected_plays r - 3.0"
  "o_run (qb_shift r) = o_run r" "d_pass (qb_shift r) = d_pass r"
  "d_run (qb_shift r) = d_run r" "run_success (qb_shift r) = run_success r"
  by (simp_all add: qb_shift_def)

lemma qb_out_general:
  assumes "project_team_score ts os is_home tgp ogp spread False wr ol edge ppb lapr hs po opo dpo
             = Inr res0"
  shows "\<exists>r0 res1.
     before_combination ts os is_home tgp ogp spread False wr ol edge lapr hs po opo dpo = Inr r0 \<and>
     before_combination ts os is_home tgp ogp spread True wr ol edge lapr hs po opo dpo
       = Inr (qb_shift r0) \<and>
     project_team_score ts os is_home tgp ogp spread True wr ol edge ppb lapr hs po opo dpo
       = Inr res1 \<and>
     finish ppb r0 = Inr res0 \<and>
     pass_rate res1 = max 0.35 (min 0.75 (expected_pass_rate r0 - 0.07)) \<and>
     plays res1 = plays res0 - 3.0"
proof -
  from project_team_score_Inr [OF assms] obtain g i r where
    g: "gather_inputs ts os tgp ogp spread lapr po opo dpo = Inr g" and
    i: "apply_injuries False wr ol edge g = Inr i" and
    h: "home_field_adjustment is_home hs i = Inr r" and
    bc: "before_combination ts os is_home tgp ogp spread False wr ol edge lapr hs po opo dpo = Inr r" and
    f: "finish ppb r = Inr res0"
    by blast
  have bc1: "before_combination ts os is_home tgp ogp spread True wr ol edge lapr hs po opo dpo
       = Inr (qb_shift r)"
    by (simp add: before_combination_def before_home_field_def g apply_injuries_qb [OF i]
        home_field_adjustment_qb [OF h])
  from finish_qb [OF f] obtain res1 where
    f1: "finish ppb (qb_shift r) = Inr res1" and
    pr: "pass_rate res1 = max 0.35 (min 0.75 (expected_pass_rate r - 0.07))" and
    pl: "plays res1 = plays res0 - 3.0"
    by blast
  have "project_team_score ts os is_home tgp ogp spread True wr ol edge ppb lapr hs po opo dpo
       = Inr res1"
    by (simp add: project_team_score_def bc1 f1)
  with bc bc1 f pr pl show ?thesis by blast
qed

lemma neutral_raw_range:
  "0.56 \<le> calculate_expected_pass_rate 0.60 0.0 0.60 0.60 spread \<and>
   calculate_expected_pass_rate 0.60 0.0 0.60 0.60 spread \<le> 0.65"
  by (simp add: calculate_expected_pass_rate_def Let_def)

text \<open>
  C6. Take any records and game context with neutral pass tendencies (pass rate 0.60,
  PROE 0.0, opposing defensive pass rate 0.60, league average 0.60) and no other injuries,
  for which the call with the quarterback playing returns a result. Then the call with the
  quarterback out returns a result too, and relative to the first call the offensive pass
  EPA before the net efficiency combination is lower by exactly 0.20, the pass success by
  0.05, the plays by 3.0, and the \<open>pass_rate\<close> of the result by exactly 0.07; the other
  running values are equal.
\<close>

theorem qb_out_difference:
  assumes "project_team_score ts os is_home tgp ogp spread False 0 0 0 ppb 0.60 hs po opo dpo
             = Inr res0"
    and "ts ''pass_rate'' = Some (PFloat 0.60)" and "ts ''proe'' = Some (PFloat 0.0)"
    and "resolve dpo os ''def_pass_rate_against'' (PFloat 0.60) = PFloat 0.60"
  shows "\<exists>r0 r1 res1 x p.
     before_combination ts os is_home tgp ogp spread False 0 0 0 0.60 hs po opo dpo = Inr r0 \<and>
     before_combination ts os is_home tgp ogp spread True 0 0 0 0.60 hs po opo dpo = Inr r1 \<and>
     project_team_score ts os is_home tgp ogp spread True 0 0 0 ppb 0.60 hs po opo dpo = Inr res1 \<and>
     o_pass r0 = PFloat x \<and> o_pass r1 = PFloat (x - 0.20) \<and>
     pass_success r0 = PFloat p \<and> pass_success r1 = PFloat (p - 0.05) \<and>
     expected_plays r1 = expected_plays r0 - 3.0 \<and> plays res1 = plays res0 - 3.0 \<and>
     expected_pass_rate r1 = expected_pass_rate r0 - 0.07 \<and>
     pass_rate res1 = pass_rate res0 - 0.07 \<and>
     o_run r1 = o_run r0 \<and> d_pass r1 = d_pass r0 \<and> d_run r1 = d_run r0 \<and>
     run_success r1 = run_success r0"
proof -
  from qb_out_general [OF assms(1)] obtain r0 res1 where
    bc0: "before_combination ts os is_home tgp ogp spread False 0 0 0 0.60 hs po opo dpo = Inr r0" and
    bc1: "before_combination ts os is_home tgp ogp spread True 0 0 0 0.60 hs po opo dpo
       = Inr (qb_shift r0)" and
    p1: "project_team_score ts os is_home tgp ogp spread True 0 0 0 ppb 0.60 hs po opo dpo
       = Inr res1" and
    f0: "finish ppb r0 = Inr res0" and
    pr1: "pass_rate res1 = max 0.35 (min 0.75 (expected_pass_rate r0 - 0.07))" and
    pl1: "plays res1 = plays res0 - 3.0"
    by blast
  from finish_Inr [OF f0] obtain x p where
    x: "o_pass r0 = PFloat x" and p: "pass_success r0 = PFloat p" and
    pr0: "pass_rate res0 = max 0.35 (min 0.75 (expected_pass_rate r0))"
    by blast
  from pass_rate_clamped_raw [OF assms(1)] assms(2-4) bc0
  have raw: "expected_pass_rate r0 = calculate_expected_pass_rate 0.60 0.0 0.60 0.60 spread"
    by simp
  with neutral_raw_range [of spread]
  have lo: "0.56 \<le> expected_pass_rate r0" and hi: "expected_pass_rate r0 \<le> 0.65"
    by simp_all
  from pr0 lo hi have e0: "pass_rate res0 = expected_pass_rate r0" by simp
  from pr1 lo hi have e1: "pass_rate res1 = expected_pass_rate r0 - 0.07" by simp
  from e0 e1 have d: "pass_rate res1 = pass_rate res0 - 0.07" by simp
  from bc0 bc1 p1 x p pl1 d qb_shift_fields(1) [OF x] qb_shift_fields(2) [OF p]
    qb_shift_fields(3-8) [of r0]
  show ?thesis by blast
qed

theorem qb_out_difference_witness:
  "\<exists>res0 res1.
     project_team_score league_average_record league_average_record True 8 8 0 False 0 0 0
        0.365 0.60 ''average'' (PFloat 65.0) (PFloat 65.0) (PFloat 0.60) = Inr res0 \<and>
     project_team_score league_average_record league_average_record True 8 8 0 True 0 0 0
        0.365 0.60 ''average'' (PFloat 65.0) (PFloat 65.0) (PFloat 0.60) = Inr res1 \<and>
     league_average_record ''pass_rate'' = Some (PFloat 0.60) \<and>
     league_average_record ''proe'' = Some (PFloat 0.0) \<and>
     resolve (PFloat 0.60) league_average_record ''def_pass_rate_against'' (PFloat 0.60)
       = PFloat 0.60 \<and>
     pass_rate res1 = pass_rate res0 - 0.07 \<and> plays res1 = plays res0 - 3.0"
proof -
  have "\<exists>res. project_team_score league_average_record league_average_record True 8 8 0 False 0 0 0
        0.365 0.60 ''average'' (PFloat 65.0) (PFloat 65.0) (PFloat 0.60) = Inr res"
    by (simp add: eval_defs)
  then obtain res0 where
    r0: "project_team_score league_average_record league_average_record True 8 8 0 False 0 0 0
        0.365 0.60 ''average'' (PFloat 65.0) (PFloat 65.0) (PFloat 0.60) = Inr res0"
    by blast
  have a: "league_average_record ''pass_rate'' = Some (PFloat 0.60)"
    by (simp add: league_average_record_def merge_team_record_def get_default_def)
  have b: "league_average_record ''proe'' = Some (PFloat 0.0)"
    by (simp add: league_average_record_def merge_team_record_def get_default_def)
  have c: "resolve (PFloat 0.60) league_average_record ''def_pass_rate_against'' (PFloat 0.60)
       = PFloat 0.60"
    by (simp add: resolve_def)
  from qb_out_difference [OF r0 a b c] obtain res1 where
    "project_team_score league_average_record league_average_record True 8 8 0 True 0 0 0
        0.365 0.60 ''average'' (PFloat 65.0) (PFloat 65.0) (PFloat 0.60) = Inr res1" and
    "pass_rate res1 = pass_rate res0 - 0.07" and "plays res1 = plays res0 - 3.0"
    by blast
  with r0 a b c show ?thesis by blast
qed

section \<open>Missing fields\<close>

lemma gather_inputs_fields:
  assumes "gather_inputs ts os tgp ogp spread lapr po opo dpo = Inr g"
  shows "(\<forall>k \<in> set team_fields. ts k \<noteq> None) \<and> (\<forall>k \<in> set opp_fields. os k \<noteq> None)"
  using assms
  by (auto simp: gather_inputs_def Let_def bindE_eq_Inr getitem_eq_Inr team_fields_def
      opp_fields_def dest!: weighted_field_Inr)

lemma getitem_not_TypeError: "getitem d k \<noteq> Inl TypeError"
  by (simp add: getitem_def split: option.splits)

lemma read_fields_mem:
  "k \<in> set read_fields \<longleftrightarrow>
     k = ''pass_rate'' \<or> k = ''proe'' \<or> k = ''season_pass_epa'' \<or> k = ''last5_pass_epa'' \<or>
     k = ''season_run_epa'' \<or> k = ''last5_run_epa'' \<or> k = ''season_pass_success'' \<or>
     k = ''last5_pass_success'' \<or> k = ''season_run_success'' \<or> k = ''last5_run_success'' \<or>
     k = ''def_season_pass_epa'' \<or> k = ''def_last5_pass_epa'' \<or> k = ''def_season_run_epa'' \<or>
     k = ''def_last5_run_epa'' \<or> k = ''def_pass_rate_against''"
  unfolding read_fields_def team_fields_def opp_fields_def by auto

lemma no_noneD: "no_none d \<Longrightarrow> k \<in> set read_fields \<Longrightarrow> d k \<noteq> Some PNone"
  by (simp add: no_none_def list_all_iff)

lemma getitem_no_none:
  "no_none d \<Longrightarrow> k \<in> set read_fields \<Longrightarrow> getitem d k = Inr v \<Longrightarrow> \<exists>x. v = PFloat x"
  by (cases v) (auto simp: getitem_eq_Inr dest: no_noneD)

lemma calculate_weighted_epa_floats:
  "\<exists>z. calculate_weighted_epa (PFloat x) (PFloat y) g = Inr (PFloat z)"
  by (simp add: calculate_weighted_epa_def blend_floats)

lemma weighted_field_no_none:
  assumes "no_none d" and k1: "k1 \<in> set read_fields" and k2: "k2 \<in> set read_fields"
  shows "weighted_field d k1 k2 g \<noteq> Inl TypeError \<and> weighted_field d k1 k2 g \<noteq> Inr PNone"
proof (cases "getitem d k1")
  case (Inl e)
  then show ?thesis
    using getitem_not_TypeError [of d k1] by (simp add: weighted_field_def)
next
  case s: (Inr a)
  from getitem_no_none [OF assms(1) k1 s] obtain x where x: "a = PFloat x" by blast
  show ?thesis
  proof (cases "getitem d k2")
    case (Inl e)
    then show ?thesis
      using getitem_not_TypeError [of d k2] s by (simp add: weighted_field_def)
  next
    case l: (Inr b)
    from getitem_no_none [OF assms(1) k2 l] obtain y where y: "b = PFloat y" by blast
    from calculate_weighted_epa_floats [of x y g] obtain z where
      "calculate_weighted_epa (PFloat x) (PFloat y) g = Inr (PFloat z)" by blast
    with s l x y show ?thesis by (auto simp: weighted_field_def)
  qed
qed

lemma resolve_no_none:
  "no_none d \<Longrightarrow> k \<in> set read_fields \<Longrightarrow> dflt \<noteq> PNone \<Longrightarrow> resolve ov d k dflt \<noteq> PNone"
  by (auto simp: resolve_def get_default_def split: option.splits dest: no_noneD)

lemma gather_inputs_no_none:
  assumes "no_none ts" and "no_none os"
  shows "gather_inputs ts os tgp ogp spread lapr po opo dpo \<noteq> Inl TypeError \<and>
         (gather_inputs ts os tgp ogp spread lapr po opo dpo = Inr g \<longrightarrow> all_floats g)"
proof -
  note wt = weighted_field_no_none [OF assms(1)]
  note wo = weighted_field_no_none [OF assms(2)]
  have w: "weighted_field ts ''season_pass_epa'' ''last5_pass_epa'' tgp \<noteq> Inl TypeError"
    "weighted_field ts ''season_pass_epa'' ''last5_pass_epa'' tgp \<noteq> Inr PNone"
    "weighted_field ts ''season_run_epa'' ''last5_run_epa'' tgp \<noteq> Inl TypeError"
    "weighted_field ts ''season_run_epa'' ''last5_run_epa'' tgp \<noteq> Inr PNone"
    "weighted_field os ''def_season_pass_epa'' ''def_last5_pass_epa'' ogp \<noteq> Inl TypeError"
    "weighted_field os ''def_season_pass_epa'' ''def_last5_pass_epa'' ogp \<noteq> Inr PNone"
    "weighted_field os ''def_season_run_epa'' ''def_last5_run_epa'' ogp \<noteq> Inl TypeError"
    "weighted_field os ''def_season_run_epa'' ''def_last5_run_epa'' ogp \<noteq> Inr PNone"
    "weighted_field ts ''season_pass_success'' ''last5_pass_success'' tgp \<noteq> Inl TypeError"
    "weighted_field ts ''season_pass_success'' ''last5_pass_success'' tgp \<noteq> Inr PNone"
    "weighted_field ts ''season_run_success'' ''last5_run_success'' tgp \<noteq> Inl TypeError"
    "weighted_field ts ''season_run_success'' ''last5_run_success'' tgp \<noteq> Inr PNone"
    using wt [of "''season_pass_epa''" "''last5_pass_epa''" tgp]
      wt [of "''season_run_epa''" "''last5_run_epa''" tgp]
      wo [of "''def_season_pass_epa''" "''def_last5_pass_epa''" ogp]
      wo [of "''def_season_run_epa''" "''def_last5_run_epa''" ogp]
      wt [of "''season_pass_success''" "''last5_pass_success''" tgp]
      wt [of "''season_run_success''" "''last5_run_success''" tgp]
    by (simp_all add: read_fields_mem)
  have d: "resolve dpo os ''def_pass_rate_against'' (PFloat 0.60) \<noteq> PNone"
    by (rule resolve_no_none [OF assms(2)]) (simp_all add: read_fields_mem)
  have n: "\<And>v e. num v = Inl e \<longleftrightarrow> v = PNone \<and> e = TypeError"
    by (case_tac v) auto
  have gi: "getitem ts ''pass_rate'' \<noteq> Inr PNone" "getitem ts ''proe'' \<noteq> Inr PNone"
    using getitem_no_none [OF assms(1), of "''pass_rate''" PNone]
      getitem_no_none [OF assms(1), of "''proe''" PNone]
    by (auto simp: read_fields_mem)
  show ?thesis
    unfolding gather_inputs_def Let_def
    using d
    by (auto simp: bindE_eq_Inl bindE_eq_Inr all_floats_def getitem_not_TypeError w gi n)
qed

lemma apply_injuries_all_floats:
  assumes "all_floats g"
  shows "\<exists>i. apply_injuries qb wr ol edge g = Inr i \<and> all_floats i"
proof -
  from assms obtain x p d where "o_pass g = PFloat x" "pass_success g = PFloat p"
    "d_pass g = PFloat d"
    by (cases "o_pass g"; cases "pass_success g"; cases "d_pass g")
      (auto simp: all_floats_def)
  with assms show ?thesis
    unfolding apply_injuries_closed by (simp add: all_floats_def)
qed

lemma home_field_adjustment_all_floats:
  assumes "all_floats i"
  shows "home_field_adjustment is_home hs i \<noteq> Inl TypeError \<and>
         (home_field_adjustment is_home hs i = Inr r \<longrightarrow> all_floats r)"
proof -
  from assms obtain x y where "o_pass i = PFloat x" "o_run i = PFloat y"
    by (cases "o_pass i"; cases "o_run i") (auto simp: all_floats_def)
  with assms show ?thesis
    by (auto simp: home_field_adjustment_def all_floats_def split: option.splits)
qed

lemma finish_all_floats:
  assumes "all_floats r"
  shows "\<exists>res. finish ppb r = Inr res"
proof -
  from assms obtain a b c d e f where "o_pass r = PFloat a" "o_run r = PFloat b"
    "d_pass r = PFloat c" "d_run r = PFloat d" "pass_success r = PFloat e"
    "run_success r = PFloat f"
    by (cases "o_pass r"; cases "o_run r"; cases "d_pass r"; cases "d_run r";
        cases "pass_success r"; cases "run_success r") (auto simp: all_floats_def)
  then show ?thesis
    by (simp add: finish_def Let_def)
qed

lemma no_type_error:
  assumes "no_none ts" and "no_none os"
  shows "project_team_score ts os is_home tgp ogp spread qb wr ol edge ppb lapr hs po opo dpo
           \<noteq> Inl TypeError"
proof (cases "gather_inputs ts os tgp ogp spread lapr po opo dpo")
  case (Inl e)
  with gather_inputs_no_none [OF assms, of tgp ogp spread lapr po opo dpo]
  show ?thesis
    by (simp add: project_team_score_def before_combination_def before_home_field_def)
next
  case g: (Inr g)
  with gather_inputs_no_none [OF assms, of tgp ogp spread lapr po opo dpo g]
  have "all_floats g" by simp
  from apply_injuries_all_floats [OF this, of qb wr ol edge] obtain i where
    i: "apply_injuries qb wr ol edge g = Inr i" and fi: "all_floats i"
    by blast
  show ?thesis
  proof (cases "home_field_adjustment is_home hs i")
    case (Inl e)
    with home_field_adjustment_all_floats [OF fi, of is_home hs] g i show ?thesis
      by (simp add: project_team_score_def before_combination_def before_home_field_def)
  next
    case h: (Inr r)
    with home_field_adjustment_all_floats [OF fi, of is_home hs r]
    have "all_floats r" by simp
    from finish_all_floats [OF this, of ppb] g i h show ?thesis
      by (auto simp: project_team_score_def before_combination_def before_home_field_def)
  qed
qed

lemma gather_inputs_team_pace_default:
  assumes "ts ''pace'' = None"
  shows "gather_inputs ts os tgp ogp spread lapr PNone opo dpo
       = gather_inputs (ts(''pace'' \<mapsto> PFloat 65.0)) os tgp ogp spread lapr PNone opo dpo"
  using assms
  by (simp add: gather_inputs_def resolve_def get_default_def weighted_field_def getitem_def)

lemma gather_inputs_opp_pace_default:
  assumes "os ''pace'' = None"
  shows "gather_inputs ts os tgp ogp spread lapr po PNone dpo
       = gather_inputs ts (os(''pace'' \<mapsto> PFloat 65.0)) tgp ogp spread lapr po PNone dpo"
  using assms
  by (simp add: gather_inputs_def resolve_def get_default_def weighted_field_def getitem_def)

lemma gather_inputs_def_pass_rate_default:
  assumes "os ''def_pass_rate_against'' = None"
  shows "gather_inputs ts os tgp ogp spread lapr po opo PNone
       = gather_inputs ts (os(''def_pass_rate_against'' \<mapsto> PFloat 0.60)) tgp ogp spread lapr
           po opo PNone"
  using assms
  by (simp add: gather_inputs_def resolve_def get_default_def weighted_field_def getitem_def)

lemma project_team_score_gather:
  "project_team_score ts os is_home tgp ogp spread qb wr ol edge ppb lapr hs po opo dpo =
     bindE (bindE (bindE (gather_inputs ts os tgp ogp spread lapr po opo dpo)
                         (apply_injuries qb wr ol edge))
                  (home_field_adjustment is_home hs))
           (finish ppb)"
  by (simp add: project_team_score_def before_combination_def before_home_field_def)

lemma missing_field_raises:
  assumes "(k \<in> set team_fields \<and> ts k = None) \<or> (k \<in> set opp_fields \<and> os k = None)"
  shows "\<exists>e. project_team_score ts os is_home tgp ogp spread qb wr ol edge ppb lapr hs po opo dpo
            = Inl e"
proof (cases "project_team_score ts os is_home tgp ogp spread qb wr ol edge ppb lapr hs po opo dpo")
  case (Inl e)
  then show ?thesis by simp
next
  case (Inr res)
  from project_team_score_Inr [OF Inr] obtain g where
    "gather_inputs ts os tgp ogp spread lapr po opo dpo = Inr g" by blast
  from gather_inputs_fields [OF this] assms show ?thesis by blast
qed

lemma merge_team_record_fields:
  "merge_team_record tend off_s off_l def_s def_l ''pass_rate''
     = Some (case tend ''pass_rate'' of None \<Rightarrow> PFloat 0.60 | Some v \<Rightarrow> v)"
  "merge_team_record tend off_s off_l def_s def_l ''proe''
     = Some (case tend ''proe'' of None \<Rightarrow> PFloat 0.0 | Some v \<Rightarrow> v)"
  "merge_team_record tend off_s off_l def_s def_l ''season_pass_epa''
     = Some (case off_s ''dropback_epa'' of None \<Rightarrow> PFloat 0.0 | Some v \<Rightarrow> v)"
  "merge_team_record tend off_s off_l def_s def_l ''last5_pass_epa''
     = Some (case off_l ''dropback_epa'' of None \<Rightarrow> PFloat 0.0 | Some v \<Rightarrow> v)"
  "merge_team_record tend off_s off_l def_s def_l ''season_run_epa''
     = Some (case off_s ''rush_epa'' of None \<Rightarrow> PFloat 0.0 | Some v \<Rightarrow> v)"
  "merge_team_record tend off_s off_l def_s def_l ''last5_run_epa''
     = Some (case off_l ''rush_epa'' of None \<Rightarrow> PFloat 0.0 | Some v \<Rightarrow> v)"
  "merge_team_record tend off_s off_l def_s def_l ''season_pass_success''
     = Some (case off_s ''dropback_sr'' of None \<Rightarrow> PFloat 0.46 | Some v \<Rightarrow> v)"
  "merge_team_record tend off_s off_l def_s def_l ''last5_pass_success''
     = Some (case off_l ''dropback_sr'' of None \<Rightarrow> PFloat 0.46 | Some v \<Rightarrow> v)"
  "merge_team_record tend off_s off_l def_s def_l ''season_run_success''
     = Some (case off_s ''rush_sr'' of None \<Rightarrow> PFloat 0.43 | Some v \<Rightarrow> v)"
  "merge_team_record tend off_s off_l def_s def_l ''last5_run_success''
     = Some (case off_l ''rush_sr'' of None \<Rightarrow> PFloat 0.43 | Some v \<Rightarrow> v)"
  "merge_team_record tend off_s off_l def_s def_l ''def_season_pass_epa''
     = Some (case def_s ''dropback_epa'' of None \<Rightarrow> PFloat 0.0 | Some v \<Rightarrow> v)"
  "merge_team_record tend off_s off_l def_s def_l ''def_last5_pass_epa''
     = Some (case def_l ''dropback_epa'' of None \<Rightarrow> PFloat 0.0 | Some v \<Rightarrow> v)"
  "merge_team_record tend off_s off_l def_s def_l ''def_season_run_epa''
     = Some (case def_s ''rush_epa'' of None \<Rightarrow> PFloat 0.0 | Some v \<Rightarrow> v)"
  "merge_team_record tend off_s off_l def_s def_l ''def_last5_run_epa''
     = Some (case def_l ''rush_epa'' of None \<Rightarrow> PFloat 0.0 | Some v \<Rightarrow> v)"
  by (simp_all add: merge_team_record_def get_default_def split: option.splits)

text \<open>
  C1 (as amended). \<^verbatim>\<open>project_team_score\<close> itself applies a default only to an absent
  \<^verbatim>\<open>pace\<close> (65.0, for the team and for the opponent) and to an absent opposing
  \<^verbatim>\<open>def_pass_rate_against\<close> (0.60), when no override is given: the call then equals the
  call on the record holding that default. When any of the fourteen fields it reads by
  subscript is absent the call raises instead of resolving a default, with a
  \<^verbatim>\<open>KeyError\<close> when neither record holds \<^verbatim>\<open>None\<close>. The defaults 0.60, 0.46, 0.43 and
  0.0 for those fields are applied by the merge: whatever the five tables hold, its record
  has all fourteen fields, each with the value of its source column when the team's row has
  that column and with the documented default when it has not (0.60 for the pass rate, 0.0
  for PROE and every EPA field, 0.46 for pass success and 0.43 for run success).
\<close>

theorem engine_defaults_only_pace_and_def_pass_rate:
  "(ts ''pace'' = None \<longrightarrow>
      project_team_score ts os is_home tgp ogp spread qb wr ol edge ppb lapr hs PNone opo dpo
      = project_team_score (ts(''pace'' \<mapsto> PFloat 65.0)) os is_home tgp ogp spread qb wr ol edge
          ppb lapr hs PNone opo dpo) \<and>
   (os ''pace'' = None \<longrightarrow>
      project_team_score ts os is_home tgp ogp spread qb wr ol edge ppb lapr hs po PNone dpo
      = project_team_score ts (os(''pace'' \<mapsto> PFloat 65.0)) is_home tgp ogp spread qb wr ol edge
          ppb lapr hs po PNone dpo) \<and>
   (os ''def_pass_rate_against'' = None \<longrightarrow>
      project_team_score ts os is_home tgp ogp spread qb wr ol edge ppb lapr hs po opo PNone
      = project_team_score ts (os(''def_pass_rate_against'' \<mapsto> PFloat 0.60)) is_home tgp ogp
          spread qb wr ol edge ppb lapr hs po opo PNone) \<and>
   ((k \<in> set team_fields \<and> ts k = None) \<or> (k \<in> set opp_fields \<and> os k = None) \<longrightarrow>
      (\<exists>e. project_team_score ts os is_home tgp ogp spread qb wr ol edge ppb lapr hs po opo dpo
              = Inl e \<and>
           (no_none ts \<and> no_none os \<longrightarrow> (\<exists>k'. e = KeyError k')))) \<and>
   (\<forall>k \<in> set team_fields \<union> set opp_fields.
      merge_team_record tend off_s off_l def_s def_l k \<noteq> None) \<and>
   map (merge_team_record Map.empty Map.empty Map.empty Map.empty Map.empty)
       [''pass_rate'', ''season_pass_success'', ''season_run_success'', ''season_pass_epa'']
     = [Some (PFloat 0.60), Some (PFloat 0.46), Some (PFloat 0.43), Some (PFloat 0.0)] \<and>
   merge_team_record tend off_s off_l def_s def_l ''pass_rate''
     = Some (case tend ''pass_rate'' of None \<Rightarrow> PFloat 0.60 | Some v \<Rightarrow> v) \<and>
   merge_team_record tend off_s off_l def_s def_l ''proe''
     = Some (case tend ''proe'' of None \<Rightarrow> PFloat 0.0 | Some v \<Rightarrow> v) \<and>
   merge_team_record tend off_s off_l def_s def_l ''season_pass_epa''
     = Some (case off_s ''dropback_epa'' of None \<Rightarrow> PFloat 0.0 | Some v \<Rightarrow> v) \<and>
   merge_team_record tend off_s off_l def_s def_l ''last5_pass_epa''
     = Some (case off_l ''dropback_epa'' of None \<Rightarrow> PFloat 0.0 | Some v \<Rightarrow> v) \<and>
   merge_team_record tend off_s off_l def_s def_l ''season_run_epa''
     = Some (case off_s ''rush_epa'' of None \<Rightarrow> PFloat 0.0 | Some v \<Rightarrow> v) \<and>
   merge_team_record tend off_s off_l def_s def_l ''last5_run_epa''
     = Some (case off_l ''rush_epa'' of None \<Rightarrow> PFloat 0.0 | Some v \<Rightarrow> v) \<and>
   merge_team_record tend off_s off_l def_s def_l ''season_pass_success''
     = Some (case off_s ''dropback_sr'' of None \<Rightarrow> PFloat 0.46 | Some v \<Rightarrow> v) \<and>
   merge_team_record tend off_s off_l def_s def_l ''last5_pass_success''
     = Some (case off_l ''dropback_sr'' of None \<Rightarrow> PFloat 0.46 | Some v \<Rightarrow> v) \<and>
   merge_team_record tend off_s off_l def_s def_l ''season_run_success''
     = Some (case off_s ''rush_sr'' of None \<Rightarrow> PFloat 0.43 | Some v \<Rightarrow> v) \<and>
   merge_team_record tend off_s off_l def_s def_l ''last5_run_success''
     = Some (case off_l ''rush_sr'' of None \<Rightarrow> PFloat 0.43 | Some v \<Rightarrow> v) \<and>
   merge_team_record tend off_s off_l def_s def_l ''def_season_pass_epa''
     = Some (case def_s ''dropback_epa'' of None \<Rightarrow> PFloat 0.0 | Some v \<Rightarrow> v) \<and>
   merge_team_record tend off_s off_l def_s def_l ''def_last5_pass_epa''
     = Some (case def_l ''dropback_epa'' of None \<Rightarrow> PFloat 0.0 | Some v \<Rightarrow> v) \<and>
   merge_team_record tend off_s off_l def_s def_l ''def_season_run_epa''
     = Some (case def_s ''rush_epa'' of None \<Rightarrow> PFloat 0.0 | Some v \<Rightarrow> v) \<and>
   merge_team_record tend off_s off_l def_s def_l ''def_last5_run_epa''
     = Some (case def_l ''rush_epa'' of None \<Rightarrow> PFloat 0.0 | Some v \<Rightarrow> v)"
proof (intro conjI impI)
  assume "ts ''pace'' = None"
  then show "project_team_score ts os is_home tgp ogp spread qb wr ol edge ppb lapr hs PNone opo dpo
      = project_team_score (ts(''pace'' \<mapsto> PFloat 65.0)) os is_home tgp ogp spread qb wr ol edge
          ppb lapr hs PNone opo dpo"
    by (simp only: project_team_score_gather gather_inputs_team_pace_default)
next
  assume "os ''pace'' = None"
  then show "project_team_score ts os is_home tgp ogp spread qb wr ol edge ppb lapr hs po PNone dpo
      = project_team_score ts (os(''pace'' \<mapsto> PFloat 65.0)) is_home tgp ogp spread qb wr ol edge
          ppb lapr hs po PNone dpo"
    by (simp only: project_team_score_gather gather_inputs_opp_pace_default)
next
  assume "os ''def_pass_rate_against'' = None"
  then show "project_team_score ts os is_home tgp ogp spread qb wr ol edge ppb lapr hs po opo PNone
      = project_team_score ts (os(''def_pass_rate_against'' \<mapsto> PFloat 0.60)) is_home tgp ogp
          spread qb wr ol edge ppb lapr hs po opo PNone"
    by (simp only: project_team_score_gather gather_inputs_def_pass_rate_default)
next
  assume m: "(k \<in> set team_fields \<and> ts k = None) \<or> (k \<in> set opp_fields \<and> os k = None)"
  from missing_field_raises [of k ts os, OF m] obtain e where
    e: "project_team_score ts os is_home tgp ogp spread qb wr ol edge ppb lapr hs po opo dpo
            = Inl e" by blast
  have "no_none ts \<and> no_none os \<longrightarrow> (\<exists>k'. e = KeyError k')"
  proof
    assume "no_none ts \<and> no_none os"
    with no_type_error [of ts os is_home tgp ogp spread qb wr ol edge ppb lapr hs po opo dpo] e
    have "e \<noteq> TypeError" by auto
    then show "\<exists>k'. e = KeyError k'" by (cases e) simp_all
  qed
  with e show "\<exists>e. project_team_score ts os is_home tgp ogp spread qb wr ol edge ppb lapr hs po opo dpo
              = Inl e \<and>
           (no_none ts \<and> no_none os \<longrightarrow> (\<exists>k'. e = KeyError k'))"
    by blast
next
  show "\<forall>k \<in> set team_fields \<union> set opp_fields.
      merge_team_record tend off_s off_l def_s def_l k \<noteq> None"
    by (simp add: team_fields_def opp_fields_def merge_team_record_def)
next
  show "map (merge_team_record Map.empty Map.empty Map.empty Map.empty Map.empty)
       [''pass_rate'', ''season_pass_success'', ''season_run_success'', ''season_pass_epa'']
     = [Some (PFloat 0.60), Some (PFloat 0.46), Some (PFloat 0.43), Some (PFloat 0.0)]"
    by (simp add: merge_team_record_def get_default_def)
qed (fact merge_team_record_fields)+

text \<open>
  C1 as first stated does not hold: a record without \<^verbatim>\<open>pass_rate\<close>, without
  \<^verbatim>\<open>season_pass_success\<close>, or an opposing record without \<^verbatim>\<open>def_last5_run_epa\<close>,
  makes the call raise \<^verbatim>\<open>KeyError\<close>.
\<close>

theorem missing_field_counterexample:
  "project_team_score (league_average_record(''pass_rate'' := None)) league_average_record
      True 8 8 0 False 0 0 0 0.365 0.60 ''average'' (PFloat 65.0) (PFloat 65.0) (PFloat 0.60)
     = Inl (KeyError ''pass_rate'') \<and>
   project_team_score (league_average_record(''season_pass_success'' := None))
      league_average_record
      True 8 8 0 False 0 0 0 0.365 0.60 ''average'' (PFloat 65.0) (PFloat 65.0) (PFloat 0.60)
     = Inl (KeyError ''season_pass_success'') \<and>
   project_team_score league_average_record (league_average_record(''def_last5_run_epa'' := None))
      True 8 8 0 False 0 0 0 0.365 0.60 ''average'' (PFloat 65.0) (PFloat 65.0) (PFloat 0.60)
     = Inl (KeyError ''def_last5_run_epa'')"
  by (simp add: eval_defs)

lemma no_none_example:
  "no_none (league_average_record(''pace'' \<mapsto> PFloat 64.0,
      ''def_pass_rate_against'' \<mapsto> PFloat 0.60, ''season_pass_success'' := None)) \<and>
   no_none (league_average_record(''pace'' \<mapsto> PFloat 64.0,
      ''def_pass_rate_against'' \<mapsto> PFloat 0.60))"
  by (simp add: no_none_def read_fields_def team_fields_def opp_fields_def
      league_average_record_def merge_team_record_def get_default_def)

theorem engine_defaults_only_pace_and_def_pass_rate_witness:
  "(league_average_record(''pace'' := None)) ''pace'' = None \<and>
   (\<exists>res. project_team_score (league_average_record(''pace'' := None))
        (league_average_record(''pace'' := None, ''def_pass_rate_against'' := None))
        True 8 8 0 False 0 0 0 0.365 0.60 ''average'' PNone PNone PNone = Inr res \<and>
      plays res = 68 \<and> pass_rate res = 0.60) \<and>
   ''season_pass_success'' \<in> set team_fields \<and>
   (\<exists>k'. project_team_score
        (league_average_record(''pace'' \<mapsto> PFloat 64.0,
           ''def_pass_rate_against'' \<mapsto> PFloat 0.60, ''season_pass_success'' := None))
        (league_average_record(''pace'' \<mapsto> PFloat 64.0,
           ''def_pass_rate_against'' \<mapsto> PFloat 0.60))
        True 8 8 0 False 0 0 0 0.365 0.60 ''average'' PNone PNone PNone = Inl (KeyError k'))"
proof -
  let ?t = "league_average_record(''pace'' := None)"
  let ?o = "league_average_record(''pace'' := None, ''def_pass_rate_against'' := None)"
  have a: "?t ''pace'' = None" by simp
  have b: "?o ''pace'' = None" by simp
  have c: "(?o(''pace'' \<mapsto> PFloat 65.0)) ''def_pass_rate_against'' = None" by simp
  have "project_team_score ?t ?o True 8 8 0 False 0 0 0 0.365 0.60 ''average'' PNone PNone PNone
      = project_team_score (?t(''pace'' \<mapsto> PFloat 65.0)) ?o True 8 8 0 False 0 0 0 0.365 0.60
          ''average'' PNone PNone PNone"
    using a engine_defaults_only_pace_and_def_pass_rate [where ts = ?t and os = ?o and opo = PNone
        and dpo = PNone and is_home = True and tgp = 8 and ogp = 8 and spread = 0 and qb = False
        and wr = 0 and ol = 0 and edge = 0 and ppb = "0.365" and lapr = "0.60"
        and hs = "''average''"]
    by blast
  also have "\<dots> = project_team_score (?t(''pace'' \<mapsto> PFloat 65.0)) (?o(''pace'' \<mapsto> PFloat 65.0))
          True 8 8 0 False 0 0 0 0.365 0.60 ''average'' PNone PNone PNone"
    using b engine_defaults_only_pace_and_def_pass_rate [where ts = "?t(''pace'' \<mapsto> PFloat 65.0)"
        and os = ?o and po = PNone
        and dpo = PNone and is_home = True and tgp = 8 and ogp = 8 and spread = 0 and qb = False
        and wr = 0 and ol = 0 and edge = 0 and ppb = "0.365" and lapr = "0.60"
        and hs = "''average''"]
    by blast
  also have "\<dots> = project_team_score (?t(''pace'' \<mapsto> PFloat 65.0))
          (?o(''pace'' \<mapsto> PFloat 65.0, ''def_pass_rate_against'' \<mapsto> PFloat 0.60))
          True 8 8 0 False 0 0 0 0.365 0.60 ''average'' PNone PNone PNone"
    using c engine_defaults_only_pace_and_def_pass_rate [where ts = "?t(''pace'' \<mapsto> PFloat 65.0)"
        and os = "?o(''pace'' \<mapsto> PFloat 65.0)" and po = PNone
        and opo = PNone and is_home = True and tgp = 8 and ogp = 8 and spread = 0 and qb = False
        and wr = 0 and ol = 0 and edge = 0 and ppb = "0.365" and lapr = "0.60"
        and hs = "''average''"]
    by blast
  finally have d: "\<exists>res. project_team_score ?t ?o True 8 8 0 False 0 0 0 0.365 0.60 ''average''
        PNone PNone PNone = Inr res \<and> plays res = 68 \<and> pass_rate res = 0.60"
    by (simp add: eval_defs)
  have m: "''season_pass_success'' \<in> set team_fields"
    by (simp add: team_fields_def)
  let ?m = "league_average_record(''pace'' \<mapsto> PFloat 64.0,
           ''def_pass_rate_against'' \<mapsto> PFloat 0.60, ''season_pass_success'' := None)"
  let ?c = "league_average_record(''pace'' \<mapsto> PFloat 64.0,
           ''def_pass_rate_against'' \<mapsto> PFloat 0.60)"
  have n: "?m ''season_pass_success'' = None" by simp
  have "\<exists>k'. project_team_score ?m ?c True 8 8 0 False 0 0 0 0.365 0.60 ''average''
          PNone PNone PNone = Inl (KeyError k')"
    using m n no_none_example
      engine_defaults_only_pace_and_def_pass_rate [where k = "''season_pass_success''"
        and ts = ?m and os = ?c and po = PNone and opo = PNone and dpo = PNone
        and is_home = True and tgp = 8 and ogp = 8 and spread = 0 and qb = False
        and wr = 0 and ol = 0 and edge = 0 and ppb = "0.365" and lapr = "0.60"
        and hs = "''average''"]
    by blast
  with a d m show ?thesis by blast
qed

section \<open>The game total and its flags\<close>

lemma total_insight_printed:
  "printed (total_insight g) = printed g @
     (if weather_adjusted_total g \<ge> 48 then [HighScoringGame]
      else if weather_adjusted_total g \<le> 40 then [LowScoringGame] else [])"
  by (simp add: total_insight_def)

lemma pass_volume_insight_printed:
  "printed (pass_volume_insight g) = printed g @
     (if pass_attempts (team_a_proj g) + pass_attempts (team_b_proj g) \<ge> 80
      then [HighPassVolume] else [])"
  by (simp add: pass_volume_insight_def Let_def)

lemma weather_insight_printed:
  "printed (weather_insight g) = printed g @
     (if weather_adjustment g \<ge> 3 then [WeatherImpact] else [])"
  by (simp add: weather_insight_def)

lemma success_insight_printed:
  "printed (success_insight g) = printed g @
     (if (success_rate (team_a_proj g) + success_rate (team_b_proj g)) / 2 \<ge> 0.48
      then [HighSuccessRates]
      else if (success_rate (team_a_proj g) + success_rate (team_b_proj g)) / 2 \<le> 0.42
      then [LowSuccessRates] else [])"
  by (simp add: success_insight_def Let_def)

lemma total_insight_only_prints: "total_insight g = g\<lparr>printed := printed (total_insight g)\<rparr>"
  by (simp add: total_insight_def)

lemma pass_volume_insight_only_prints:
  "pass_volume_insight g = g\<lparr>printed := printed (pass_volume_insight g)\<rparr>"
  by (simp add: pass_volume_insight_def Let_def)

lemma weather_insight_only_prints:
  "weather_insight g = g\<lparr>printed := printed (weather_insight g)\<rparr>"
  by (simp add: weather_insight_def)

lemma success_insight_only_prints:
  "success_insight g = g\<lparr>printed := printed (success_insight g)\<rparr>"
  by (simp add: success_insight_def Let_def)

lemma only_prints_fields:
  assumes "h = g\<lparr>printed := p\<rparr>"
  shows "team_a_proj h = team_a_proj g" "team_b_proj h = team_b_proj g"
    "weather_adjustment h = weather_adjustment g" "base_total h = base_total g"
    "weather_adjusted_total h = weather_adjusted_total g"
  using assms by simp_all

lemmas insight_fields =
  only_prints_fields [OF total_insight_only_prints]
  only_prints_fields [OF pass_volume_insight_only_prints]
  only_prints_fields [OF weather_insight_only_prints]
  only_prints_fields [OF success_insight_only_prints]

lemma betting_insights_only_prints:
  "betting_insights g = g\<lparr>printed := printed (betting_insights g)\<rparr>"
proof -
  have "team_a_proj (betting_insights g) = team_a_proj g"
    "team_b_proj (betting_insights g) = team_b_proj g"
    "weather_adjustment (betting_insights g) = weather_adjustment g"
    "base_total (betting_insights g) = base_total g"
    "weather_adjusted_total (betting_insights g) = weather_adjusted_total g"
    by (simp_all only: betting_insights_def insight_fields)
  then show ?thesis by simp
qed

lemma betting_insights_printed:
  "printed (betting_insights g) = printed g @
     (if weather_adjusted_total g \<ge> 48 then [HighScoringGame]
      else if weather_adjusted_total g \<le> 40 then [LowScoringGame] else []) @
     (if pass_attempts (team_a_proj g) + pass_attempts (team_b_proj g) \<ge> 80
      then [HighPassVolume] else []) @
     (if weather_adjustment g \<ge> 3 then [WeatherImpact] else []) @
     (if (success_rate (team_a_proj g) + success_rate (team_b_proj g)) / 2 \<ge> 0.48
      then [HighSuccessRates]
      else if (success_rate (team_a_proj g) + success_rate (team_b_proj g)) / 2 \<le> 0.42
      then [LowSuccessRates] else [])"
  by (simp only: betting_insights_def success_insight_printed weather_insight_printed
      pass_volume_insight_printed total_insight_printed insight_fields append_assoc)

lemma print_totals_fields:
  "team_a_proj (print_totals g) = team_a_proj g" "team_b_proj (print_totals g) = team_b_proj g"
  "weather_adjustment (print_totals g) = weather_adjustment g"
  "base_total (print_totals g) = base_total g"
  "weather_adjusted_total (print_totals g) = weather_adjusted_total g"
  "printed (print_totals g) = printed g @
     [if weather_adjustment g > 0 then BaseAndFinalTotal else ProjectedTotal]"
  by (simp_all add: print_totals_def)

lemma totals_fields:
  "team_a_proj (totals a b w) = a" "team_b_proj (totals a b w) = b"
  "weather_adjustment (totals a b w) = w" "base_total (totals a b w) = score a + score b"
  "weather_adjusted_total (totals a b w) = score a + score b - w"
  "printed (totals a b w) = []"
  by (simp_all add: totals_def Let_def)

lemma get_game_projection_fields:
  "team_a_proj (get_game_projection a b w) = a" "team_b_proj (get_game_projection a b w) = b"
  "weather_adjustment (get_game_projection a b w) = w"
  "base_total (get_game_projection a b w) = score a + score b"
  "weather_adjusted_total (get_game_projection a b w) = score a + score b - w"
  unfolding get_game_projection_def
  by (simp_all only: only_prints_fields [OF betting_insights_only_prints] print_totals_fields
      totals_fields)

lemma get_game_projection_printed:
  "printed (get_game_projection a b w) =
     [if w > 0 then BaseAndFinalTotal else ProjectedTotal] @
     (if score a + score b - w \<ge> 48 then [HighScoringGame]
      else if score a + score b - w \<le> 40 then [LowScoringGame] else []) @
     (if pass_attempts a + pass_attempts b \<ge> 80 then [HighPassVolume] else []) @
     (if w \<ge> 3 then [WeatherImpact] else []) @
     (if (success_rate a + success_rate b) / 2 \<ge> 0.48 then [HighSuccessRates]
      else if (success_rate a + success_rate b) / 2 \<le> 0.42 then [LowSuccessRates] else [])"
  unfolding get_game_projection_def
  by (simp only: betting_insights_printed print_totals_fields totals_fields append_Nil)

text \<open>
  C8. For any two projections and weather penalty w the game total is computed as
  base_total = score A + score B and final total = base_total - w. The advisory flags are
  printed exactly at their thresholds (final total at least 48 or at most 40, combined pass
  attempts at least 80, penalty at least 3, average blended success rate at least 0.48 or
  at most 0.42), and they are descriptive only: each flag step changes nothing but the
  printed lines, so the totals and both projections come out as they went in.
\<close>

theorem game_totals_and_flags:
  "base_total (get_game_projection a b w) = score a + score b \<and>
   weather_adjusted_total (get_game_projection a b w) = base_total (get_game_projection a b w) - w \<and>
   team_a_proj (get_game_projection a b w) = a \<and>
   team_b_proj (get_game_projection a b w) = b \<and>
   weather_adjustment (get_game_projection a b w) = w \<and>
   (HighScoringGame \<in> set (printed (get_game_projection a b w))
      \<longleftrightarrow> score a + score b - w \<ge> 48) \<and>
   (LowScoringGame \<in> set (printed (get_game_projection a b w))
      \<longleftrightarrow> score a + score b - w \<le> 40) \<and>
   (HighPassVolume \<in> set (printed (get_game_projection a b w))
      \<longleftrightarrow> pass_attempts a + pass_attempts b \<ge> 80) \<and>
   (WeatherImpact \<in> set (printed (get_game_projection a b w)) \<longleftrightarrow> w \<ge> 3) \<and>
   (HighSuccessRates \<in> set (printed (get_game_projection a b w))
      \<longleftrightarrow> (success_rate a + success_rate b) / 2 \<ge> 0.48) \<and>
   (LowSuccessRates \<in> set (printed (get_game_projection a b w))
      \<longleftrightarrow> (success_rate a + success_rate b) / 2 \<le> 0.42) \<and>
   total_insight g = g\<lparr>printed := printed (total_insight g)\<rparr> \<and>
   pass_volume_insight g = g\<lparr>printed := printed (pass_volume_insight g)\<rparr> \<and>
   weather_insight g = g\<lparr>printed := printed (weather_insight g)\<rparr> \<and>
   success_insight g = g\<lparr>printed := printed (success_insight g)\<rparr> \<and>
   betting_insights g = g\<lparr>printed := printed (betting_insights g)\<rparr>"
proof (intro conjI)
  show "HighScoringGame \<in> set (printed (get_game_projection a b w))
      \<longleftrightarrow> score a + score b - w \<ge> 48"
    unfolding get_game_projection_printed by simp
  show "LowScoringGame \<in> set (printed (get_game_projection a b w))
      \<longleftrightarrow> score a + score b - w \<le> 40"
    unfolding get_game_projection_printed by simp
  show "HighPassVolume \<in> set (printed (get_game_projection a b w))
      \<longleftrightarrow> pass_attempts a + pass_attempts b \<ge> 80"
    unfolding get_game_projection_printed by simp
  show "WeatherImpact \<in> set (printed (get_game_projection a b w)) \<longleftrightarrow> w \<ge> 3"
    unfolding get_game_projection_printed by simp
  show "HighSuccessRates \<in> set (printed (get_game_projection a b w))
      \<longleftrightarrow> (success_rate a + success_rate b) / 2 \<ge> 0.48"
    unfolding get_game_projection_printed by simp
  show "LowSuccessRates \<in> set (printed (get_game_projection a b w))
      \<longleftrightarrow> (success_rate a + success_rate b) / 2 \<le> 0.42"
    unfolding get_game_projection_printed by simp
qed (simp_all only: get_game_projection_fields total_insight_only_prints [symmetric]
    pass_volume_insight_only_prints [symmetric] weather_insight_only_prints [symmetric]
    success_insight_only_prints [symmetric] betting_insights_only_prints [symmetric])

section \<open>The net efficiency combiner on doubles\<close>

lemma pow2_nat: "0 \<le> e \<Longrightarrow> (2::real) powi e = 2 ^ nat e"
  by (simp add: power_int_def)

lemma binade_bounds:
  assumes "x \<noteq> 0"
  shows "2 powi binade x \<le> \<bar>x\<bar> \<and> \<bar>x\<bar> < 2 powi (binade x + 1)"
proof (cases "\<bar>x\<bar> \<ge> 1")
  case True
  define m where "m = \<lfloor>\<bar>x\<bar>\<rfloor>"
  from True have m: "0 < m" by (simp add: m_def)
  from bitlen_bounds [OF m] have b: "2 ^ nat (bitlen m - 1) \<le> m" "m < 2 ^ nat (bitlen m)"
    by simp_all
  from m have b1: "1 \<le> bitlen m" by (auto simp: bitlen_alt_def)
  have e: "binade x = bitlen m - 1" using True by (simp add: binade_def m_def)
  have "(2::real) powi binade x = 2 ^ nat (bitlen m - 1)"
    using b1 by (simp add: e pow2_nat)
  also have "\<dots> = of_int (2 ^ nat (bitlen m - 1))" by simp
  also have "\<dots> \<le> of_int m" using b(1) by (simp only: of_int_le_iff)
  also have "\<dots> \<le> \<bar>x\<bar>" by (simp add: m_def)
  finally have lo: "2 powi binade x \<le> \<bar>x\<bar>" .
  have "m + 1 \<le> 2 ^ nat (bitlen m)" using b(2) by simp
  then have "real_of_int (m + 1) \<le> of_int (2 ^ nat (bitlen m))" by (simp only: of_int_le_iff)
  moreover have "\<bar>x\<bar> < real_of_int (m + 1)" by (simp add: m_def)
  ultimately have "\<bar>x\<bar> < 2 ^ nat (bitlen m)" by simp
  moreover have "(2::real) powi (binade x + 1) = 2 ^ nat (bitlen m)"
    using b1 by (simp add: e pow2_nat)
  ultimately show ?thesis using lo by simp
next
  case False
  define y where "y = 1 / \<bar>x\<bar>"
  define m where "m = \<lceil>y\<rceil> - 1"
  from False assms have y1: "1 < y" by (simp add: y_def)
  then have m: "0 < m" by (simp add: m_def)
  from bitlen_bounds [OF m] have b: "2 ^ nat (bitlen m - 1) \<le> m" "m < 2 ^ nat (bitlen m)"
    by simp_all
  from m have b1: "1 \<le> bitlen m" by (auto simp: bitlen_alt_def)
  have e: "binade x = - bitlen m" using False by (simp add: binade_def m_def y_def)
  have my: "of_int m < y" "y \<le> of_int m + 1" by (simp_all add: m_def) linarith+
  have "y \<le> of_int m + 1" by fact
  also have "\<dots> = real_of_int (m + 1)" by simp
  also have "\<dots> \<le> of_int (2 ^ nat (bitlen m))" using b(2) by (simp only: of_int_le_iff)
  finally have yu: "y \<le> 2 ^ nat (bitlen m)" by simp
  have "real_of_int (2 ^ nat (bitlen m - 1)) \<le> of_int m" using b(1) by (simp only: of_int_le_iff)
  then have "(2::real) ^ nat (bitlen m - 1) \<le> of_int m" by simp
  with my(1) have yl: "2 ^ nat (bitlen m - 1) < y" by linarith
  have xy: "\<bar>x\<bar> = 1 / y" using assms by (simp add: y_def)
  have p1: "(2::real) powi binade x = 1 / 2 ^ nat (bitlen m)"
    using b1 by (simp add: e power_int_def field_simps)
  have p2: "(2::real) powi (binade x + 1) = 1 / 2 ^ nat (bitlen m - 1)"
    using b1 by (simp add: e power_int_def field_simps nat_diff_distrib)
  from yu y1 have "1 / 2 ^ nat (bitlen m) \<le> 1 / y"
    by (simp add: field_simps)
  moreover from yl y1 have "1 / y < 1 / 2 ^ nat (bitlen m - 1)"
    by (simp add: field_simps)
  ultimately show ?thesis by (simp add: p1 p2 xy)
qed

lemma binade_unique:
  assumes "2 powi e \<le> \<bar>x\<bar>" and "\<bar>x\<bar> < 2 powi (e + 1)"
  shows "binade x = e"
proof -
  have "(0::real) < 2 powi e" by (simp add: zero_less_power_int)
  with assms(1) have "0 < \<bar>x\<bar>" by linarith
  then have x: "x \<noteq> 0" by simp
  note b = binade_bounds [OF x]
  have "\<not> binade x < e"
  proof
    assume "binade x < e"
    then have "binade x + 1 \<le> e" by simp
    then have "(2::real) powi (binade x + 1) \<le> 2 powi e"
      by (rule power_int_increasing) simp
    with b assms(1) show False by linarith
  qed
  moreover have "\<not> e < binade x"
  proof
    assume "e < binade x"
    then have "e + 1 \<le> binade x" by simp
    then have "(2::real) powi (e + 1) \<le> 2 powi binade x"
      by (rule power_int_increasing) simp
    with b assms(2) show False by linarith
  qed
  ultimately show ?thesis by simp
qed

lemma round_double_eval:
  fixes n :: nat
  assumes "2 ^ 52 / 2 ^ n \<le> \<bar>x\<bar>" and "\<bar>x\<bar> < 2 ^ 53 / 2 ^ n"
  shows "round_double x = of_int (round_even (x * 2 ^ n)) / 2 ^ n"
proof -
  have p: "(2::real) powi (52 - int n) = 2 ^ 52 / 2 ^ n"
    "(2::real) powi (52 - int n + 1) = 2 ^ 53 / 2 ^ n"
    by (simp_all add: power_int_diff power_int_add)
  from assms have b: "binade x = 52 - int n"
    by (intro binade_unique) (simp_all only: p)
  have "(0::real) < 2 ^ 52 / 2 ^ n" by simp
  with assms(1) have "0 < \<bar>x\<bar>" by linarith
  then have x: "x \<noteq> 0" by simp
  have u: "(2::real) powi (binade x - 52) = 1 / 2 ^ n"
    by (simp add: b power_int_minus field_simps)
  show ?thesis using x by (simp add: round_double_def Let_def u)
qed

lemma round_double_scale:
  "round_double (2 powi n * x) = 2 powi n * round_double x"
proof (cases "x = 0")
  case True
  then show ?thesis by (simp add: round_double_def)
next
  case False
  have pos: "(0::real) < 2 powi n" by (simp add: zero_less_power_int)
  note b = binade_bounds [OF False]
  have a: "\<bar>2 powi n * x\<bar> = 2 powi n * \<bar>x\<bar>" using pos by (simp add: abs_mult)
  have lo: "2 powi (binade x + n) \<le> \<bar>2 powi n * x\<bar>"
  proof -
    have "(2::real) powi (binade x + n) = 2 powi n * 2 powi binade x"
      by (simp add: power_int_add)
    also have "\<dots> \<le> 2 powi n * \<bar>x\<bar>"
      using b pos by (intro mult_left_mono) simp_all
    also have "\<dots> = \<bar>2 powi n * x\<bar>" by (simp only: a)
    finally show ?thesis .
  qed
  have hi: "\<bar>2 powi n * x\<bar> < 2 powi (binade x + n + 1)"
  proof -
    have "\<bar>2 powi n * x\<bar> = 2 powi n * \<bar>x\<bar>" by (simp only: a)
    also have "\<dots> < 2 powi n * 2 powi (binade x + 1)"
      using b pos by (intro mult_strict_left_mono) simp_all
    also have "\<dots> = 2 powi (binade x + n + 1)"
      by (simp add: power_int_add)
    finally show ?thesis .
  qed
  from binade_unique [OF lo hi] have e: "binade (2 powi n * x) = binade x + n" .
  have u: "(2::real) powi (binade x + n - 52) = 2 powi n * 2 powi (binade x - 52)"
    by (simp add: power_int_add power_int_diff)
  have nz: "2 powi n * x \<noteq> 0" using False pos by simp
  show ?thesis
    using False nz pos by (simp add: round_double_def Let_def e u)
qed

lemma round_even_of_int [simp]: "round_even (of_int m) = m"
  by (simp add: round_even_def)

lemma round_even_bounds: "\<lfloor>x\<rfloor> \<le> round_even x \<and> round_even x \<le> \<lceil>x\<rceil>"
proof -
  have "x - of_int \<lfloor>x\<rfloor> = 0 \<or> 0 < x - of_int \<lfloor>x\<rfloor>"
    by linarith
  then show ?thesis
  proof
    assume "x - of_int \<lfloor>x\<rfloor> = 0"
    then have "x = of_int \<lfloor>x\<rfloor>" by simp
    then obtain m where "x = of_int m" ..
    then show ?thesis by simp
  next
    assume "0 < x - of_int \<lfloor>x\<rfloor>"
    then have "\<lceil>x\<rceil> = \<lfloor>x\<rfloor> + 1" by linarith
    then show ?thesis by (simp add: round_even_def Let_def)
  qed
qed

lemma round_double_idem: "round_double (round_double x) = round_double x"
proof (cases "x = 0")
  case True
  then show ?thesis by (simp add: round_double_def)
next
  case False
  define u :: real where "u = 2 powi (binade x - 52)"
  define t where "t = x / u"
  define M where "M = round_even t"
  have upos: "0 < u" by (simp add: u_def zero_less_power_int)
  have y: "round_double x = of_int M * u"
    using False by (simp add: round_double_def Let_def u_def t_def M_def)
  note b = binade_bounds [OF False]
  have bu: "2 powi binade x = 2 ^ 52 * u" "2 powi (binade x + 1) = 2 ^ 53 * u"
    by (simp_all add: u_def power_int_diff power_int_add)
  have at: "\<bar>t\<bar> = \<bar>x\<bar> / u" using upos by (simp add: t_def)
  from b have xb: "2 ^ 52 * u \<le> \<bar>x\<bar>" "\<bar>x\<bar> < 2 ^ 53 * u"
    unfolding bu by simp_all
  have tlo: "2 ^ 52 \<le> \<bar>t\<bar>"
    using xb(1) upos by (simp only: at pos_le_divide_eq)
  have thi: "\<bar>t\<bar> < 2 ^ 53"
    using xb(2) upos by (simp only: at pos_divide_less_eq)
  note rb = round_even_bounds [of t]
  have Mb: "2 ^ 52 \<le> \<bar>M\<bar> \<and> \<bar>M\<bar> \<le> 2 ^ 53"
  proof (cases "0 \<le> t")
    case True
    with tlo thi have "2 ^ 52 \<le> t" "t < 2 ^ 53" by simp_all
    then have "(4503599627370496::int) \<le> \<lfloor>t\<rfloor>" "\<lceil>t\<rceil> \<le> (9007199254740992::int)"
      by (simp_all add: le_floor_iff ceiling_le_iff)
    with rb have "4503599627370496 \<le> M \<and> M \<le> 9007199254740992"
      unfolding M_def by (meson order_trans)
    then show ?thesis by simp
  next
    case False
    with tlo thi have "t \<le> - (2 ^ 52)" "- (2 ^ 53) < t" by simp_all
    then have "\<lceil>t\<rceil> \<le> (- 4503599627370496::int)" "(- 9007199254740992::int) \<le> \<lfloor>t\<rfloor>"
      by (simp_all add: le_floor_iff ceiling_le_iff)
    with rb have "- 9007199254740992 \<le> M \<and> M \<le> - 4503599627370496"
      unfolding M_def by (meson order_trans)
    then show ?thesis by simp
  qed
  have ay: "\<bar>of_int M * u\<bar> = \<bar>real_of_int M\<bar> * u" using upos by (simp add: abs_mult)
  show ?thesis
  proof (cases "\<bar>M\<bar> = 2 ^ 53")
    case False
    with Mb have "\<bar>M\<bar> < 2 ^ 53" by simp
    then have "\<bar>M\<bar> + 1 \<le> 2 ^ 53" by simp
    then have "real_of_int (\<bar>M\<bar> + 1) \<le> of_int (2 ^ 53)" by (simp only: of_int_le_iff)
    then have r1: "\<bar>real_of_int M\<bar> < 2 ^ 53" by simp
    from Mb have "real_of_int (2 ^ 52) \<le> of_int \<bar>M\<bar>" by (simp only: of_int_le_iff)
    then have r2: "2 ^ 52 \<le> \<bar>real_of_int M\<bar>" by simp
    have lo: "2 powi binade x \<le> \<bar>of_int M * u\<bar>"
      using r2 upos by (simp add: ay bu)
    have hi: "\<bar>of_int M * u\<bar> < 2 powi (binade x + 1)"
      using r1 upos by (simp add: ay bu)
    from binade_unique [OF lo hi] have e: "binade (of_int M * u) = binade x" .
    have nz: "of_int M * u \<noteq> 0" using r2 upos by auto
    have "round_double (of_int M * u) = of_int M * u"
      using nz upos by (simp add: round_double_def Let_def e u_def [symmetric])
    then show ?thesis by (simp add: y)
  next
    case True
    then have "real_of_int \<bar>M\<bar> = 2 ^ 53" by simp
    then have r: "\<bar>real_of_int M\<bar> = 2 ^ 53" by simp
    have lo: "2 powi (binade x + 1) \<le> \<bar>of_int M * u\<bar>"
      using upos by (simp add: ay bu r)
    have "2 powi (binade x + 1 + 1) = 2 * (2 ^ 53 * u)"
      by (simp add: u_def power_int_diff power_int_add)
    then have hi: "\<bar>of_int M * u\<bar> < 2 powi (binade x + 1 + 1)"
      using upos by (simp add: ay r)
    from binade_unique [OF lo hi] have e: "binade (of_int M * u) = binade x + 1" .
    have pa: "(2::real) powi (binade x - 52 + 1) = 2 powi (binade x - 52) * 2 powi 1"
      by (rule power_int_add) simp
    have "binade x - 51 = (binade x - 52) + 1" by simp
    then have "(2::real) powi (binade x - 51) = 2 powi (binade x - 52) * 2 powi 1"
      using pa by (simp only:)
    then have u2: "(2::real) powi (binade x - 51) = 2 * u"
      by (simp add: u_def)
    have nz: "of_int M * u \<noteq> 0" using r upos by auto
    from True have "even \<bar>M\<bar>" by simp
    then have "even M" by simp
    then obtain h where h: "M = 2 * h" by (auto elim: evenE)
    have q: "of_int M * u / (2 * u) = real_of_int h" using upos by (simp add: h)
    have "round_double (of_int M * u) = of_int h * (2 * u)"
      using nz by (simp add: round_double_def Let_def e u2 q)
    then show ?thesis by (simp add: y h)
  qed
qed

lemma double_literals:
  "round_double 1.6 = 7205759403792794 / 2 ^ 52" "round_double 1.0 = 1" "round_double 2.6 = 5854679515581645 / 2 ^ 51"
  "round_double (15 / 100) = 5404319552844595 / 2 ^ 55" "round_double (2 / 100) = 5764607523034235 / 2 ^ 58"
  using round_double_eval [of 52 "1.6"] round_double_eval [of 52 "1.0"]
    round_double_eval [of 51 "2.6"] round_double_eval [of 55 "15 / 100"]
    round_double_eval [of 58 "2 / 100"]
  by (simp_all add: round_even_def)

lemma net_epa_example:
  "calculate_net_epa_double (5404319552844595 / 2 ^ 55) (5764607523034235 / 2 ^ 58) = 7205759403792794 / 2 ^ 56"
  "net_epa_steps (5404319552844595 / 2 ^ 55) (5764607523034235 / 2 ^ 58) =
     [5404319552844595 / 2 ^ 55 * (7205759403792794 / 2 ^ 52), 5764607523034235 / 2 ^ 58 * 1, 8646911284551352 / 2 ^ 55 + 5764607523034235 / 2 ^ 58, (4683743612465316 / 2 ^ 54) / (5854679515581645 / 2 ^ 51)]"
proof -
  have p1: "round_double (5404319552844595 / 2 ^ 55 * (7205759403792794 / 2 ^ 52)) = 8646911284551352 / 2 ^ 55"
    using round_double_eval [of 55 "5404319552844595 / 2 ^ 55 * (7205759403792794 / 2 ^ 52)"] by (simp add: round_even_def)
  have p2: "round_double (5764607523034235 / 2 ^ 58 * 1) = 5764607523034235 / 2 ^ 58"
    using round_double_eval [of 58 "5764607523034235 / 2 ^ 58 * 1"] by (simp add: round_even_def)
  have s: "round_double (8646911284551352 / 2 ^ 55 + 5764607523034235 / 2 ^ 58) = 4683743612465316 / 2 ^ 54"
    using round_double_eval [of 54 "8646911284551352 / 2 ^ 55 + 5764607523034235 / 2 ^ 58"] by (simp add: round_even_def)
  have q: "round_double ((4683743612465316 / 2 ^ 54) / (5854679515581645 / 2 ^ 51)) = 7205759403792794 / 2 ^ 56"
    using round_double_eval [of 56 "(4683743612465316 / 2 ^ 54) / (5854679515581645 / 2 ^ 51)"] by (simp add: round_even_def)
  show "calculate_net_epa_double (5404319552844595 / 2 ^ 55) (5764607523034235 / 2 ^ 58) = 7205759403792794 / 2 ^ 56"
    by (simp only: calculate_net_epa_double_def fmul_def fadd_def fdiv_def double_literals
        p1 p2 s q)
  show "net_epa_steps (5404319552844595 / 2 ^ 55) (5764607523034235 / 2 ^ 58) =
     [5404319552844595 / 2 ^ 55 * (7205759403792794 / 2 ^ 52), 5764607523034235 / 2 ^ 58 * 1, 8646911284551352 / 2 ^ 55 + 5764607523034235 / 2 ^ 58, (4683743612465316 / 2 ^ 54) / (5854679515581645 / 2 ^ 51)]"
    by (simp only: net_epa_steps_def fmul_def fadd_def fdiv_def double_literals p1 p2 s q)
qed

lemma net_epa_example_tripled:
  "calculate_net_epa_double (8106479329266892 / 2 ^ 54) (8646911284551352 / 2 ^ 57) = 5404319552844595 / 2 ^ 54"
  "net_epa_steps (8106479329266892 / 2 ^ 54) (8646911284551352 / 2 ^ 57) =
     [8106479329266892 / 2 ^ 54 * (7205759403792794 / 2 ^ 52), 8646911284551352 / 2 ^ 57 * 1, 6485183463413514 / 2 ^ 53 + 8646911284551352 / 2 ^ 57, (7025615418697974 / 2 ^ 53) / (5854679515581645 / 2 ^ 51)]"
proof -
  have p1: "round_double (8106479329266892 / 2 ^ 54 * (7205759403792794 / 2 ^ 52)) = 6485183463413514 / 2 ^ 53"
    using round_double_eval [of 53 "8106479329266892 / 2 ^ 54 * (7205759403792794 / 2 ^ 52)"] by (simp add: round_even_def)
  have p2: "round_double (8646911284551352 / 2 ^ 57 * 1) = 8646911284551352 / 2 ^ 57"
    using round_double_eval [of 57 "8646911284551352 / 2 ^ 57 * 1"] by (simp add: round_even_def)
  have s: "round_double (6485183463413514 / 2 ^ 53 + 8646911284551352 / 2 ^ 57) = 7025615418697974 / 2 ^ 53"
    using round_double_eval [of 53 "6485183463413514 / 2 ^ 53 + 8646911284551352 / 2 ^ 57"] by (simp add: round_even_def)
  have q: "round_double ((7025615418697974 / 2 ^ 53) / (5854679515581645 / 2 ^ 51)) = 5404319552844595 / 2 ^ 54"
    using round_double_eval [of 54 "(7025615418697974 / 2 ^ 53) / (5854679515581645 / 2 ^ 51)"] by (simp add: round_even_def)
  show "calculate_net_epa_double (8106479329266892 / 2 ^ 54) (8646911284551352 / 2 ^ 57) = 5404319552844595 / 2 ^ 54"
    by (simp only: calculate_net_epa_double_def fmul_def fadd_def fdiv_def double_literals
        p1 p2 s q)
  show "net_epa_steps (8106479329266892 / 2 ^ 54) (8646911284551352 / 2 ^ 57) =
     [8106479329266892 / 2 ^ 54 * (7205759403792794 / 2 ^ 52), 8646911284551352 / 2 ^ 57 * 1, 6485183463413514 / 2 ^ 53 + 8646911284551352 / 2 ^ 57, (7025615418697974 / 2 ^ 53) / (5854679515581645 / 2 ^ 51)]"
    by (simp only: net_epa_steps_def fmul_def fadd_def fdiv_def double_literals p1 p2 s q)
qed

lemma net_epa_example_doubled:
  "calculate_net_epa_double (5404319552844595 / 2 ^ 54) (5764607523034235 / 2 ^ 57) = 7205759403792794 / 2 ^ 55"
  "net_epa_steps (5404319552844595 / 2 ^ 54) (5764607523034235 / 2 ^ 57) =
     [5404319552844595 / 2 ^ 54 * (7205759403792794 / 2 ^ 52), 5764607523034235 / 2 ^ 57 * 1, 8646911284551352 / 2 ^ 54 + 5764607523034235 / 2 ^ 57, (4683743612465316 / 2 ^ 53) / (5854679515581645 / 2 ^ 51)]"
proof -
  have p1: "round_double (5404319552844595 / 2 ^ 54 * (7205759403792794 / 2 ^ 52)) = 8646911284551352 / 2 ^ 54"
    using round_double_eval [of 54 "5404319552844595 / 2 ^ 54 * (7205759403792794 / 2 ^ 52)"] by (simp add: round_even_def)
  have p2: "round_double (5764607523034235 / 2 ^ 57 * 1) = 5764607523034235 / 2 ^ 57"
    using round_double_eval [of 57 "5764607523034235 / 2 ^ 57 * 1"] by (simp add: round_even_def)
  have s: "round_double (8646911284551352 / 2 ^ 54 + 5764607523034235 / 2 ^ 57) = 4683743612465316 / 2 ^ 53"
    using round_double_eval [of 53 "8646911284551352 / 2 ^ 54 + 5764607523034235 / 2 ^ 57"] by (simp add: round_even_def)
  have q: "round_double ((4683743612465316 / 2 ^ 53) / (5854679515581645 / 2 ^ 51)) = 7205759403792794 / 2 ^ 55"
    using round_double_eval [of 55 "(4683743612465316 / 2 ^ 53) / (5854679515581645 / 2 ^ 51)"] by (simp add: round_even_def)
  show "calculate_net_epa_double (5404319552844595 / 2 ^ 54) (5764607523034235 / 2 ^ 57) = 7205759403792794 / 2 ^ 55"
    by (simp only: calculate_net_epa_double_def fmul_def fadd_def fdiv_def double_literals
        p1 p2 s q)
  show "net_epa_steps (5404319552844595 / 2 ^ 54) (5764607523034235 / 2 ^ 57) =
     [5404319552844595 / 2 ^ 54 * (7205759403792794 / 2 ^ 52), 5764607523034235 / 2 ^ 57 * 1, 8646911284551352 / 2 ^ 54 + 5764607523034235 / 2 ^ 57, (4683743612465316 / 2 ^ 53) / (5854679515581645 / 2 ^ 51)]"
    by (simp only: net_epa_steps_def fmul_def fadd_def fdiv_def double_literals p1 p2 s q)
qed

lemma fmul_example_tripled:
  "fmul 3 (5404319552844595 / 2 ^ 55) = 8106479329266892 / 2 ^ 54" "fmul 3 (5764607523034235 / 2 ^ 58) = 8646911284551352 / 2 ^ 57" "fmul 3 (7205759403792794 / 2 ^ 56) = 5404319552844596 / 2 ^ 54"
proof -
  have a: "round_double (3 * (5404319552844595 / 2 ^ 55)) = 8106479329266892 / 2 ^ 54"
    using round_double_eval [of 54 "3 * (5404319552844595 / 2 ^ 55)"] by (simp add: round_even_def)
  have b: "round_double (3 * (5764607523034235 / 2 ^ 58)) = 8646911284551352 / 2 ^ 57"
    using round_double_eval [of 57 "3 * (5764607523034235 / 2 ^ 58)"] by (simp add: round_even_def)
  have c: "round_double (3 * (7205759403792794 / 2 ^ 56)) = 5404319552844596 / 2 ^ 54"
    using round_double_eval [of 54 "3 * (7205759403792794 / 2 ^ 56)"] by (simp add: round_even_def)
  show "fmul 3 (5404319552844595 / 2 ^ 55) = 8106479329266892 / 2 ^ 54" "fmul 3 (5764607523034235 / 2 ^ 58) = 8646911284551352 / 2 ^ 57" "fmul 3 (7205759403792794 / 2 ^ 56) = 5404319552844596 / 2 ^ 54"
    by (simp_all only: fmul_def a b c)
qed

lemma calculate_net_epa_double_scale:
  "calculate_net_epa_double (2 powi n * a) (2 powi n * b) = 2 powi n * calculate_net_epa_double a b"
proof -
  let ?k = "(2::real) powi n"
  have m: "\<And>x c. fmul (?k * x) c = ?k * fmul x c"
    by (simp add: fmul_def mult.assoc round_double_scale)
  have s: "\<And>x y. fadd (?k * x) (?k * y) = ?k * fadd x y"
    by (simp add: fadd_def distrib_left [symmetric] round_double_scale)
  have d: "\<And>x c. fdiv (?k * x) c = ?k * fdiv x c"
    by (simp add: fdiv_def times_divide_eq_right [symmetric] round_double_scale
        del: times_divide_eq_right)
  show ?thesis
    by (simp only: calculate_net_epa_double_def m s d)
qed

lemma calculate_net_epa_double_is_double:
  "round_double (calculate_net_epa_double a b) = calculate_net_epa_double a b"
  by (simp add: calculate_net_epa_double_def fdiv_def round_double_idem)

text \<open>
  C7 (as amended). On doubles the net efficiency combiner returns
  (offense * 1.6 + defense * 1.0) / 2.6 evaluated in binary64 arithmetic: the literals,
  the two products, the sum and the quotient are each rounded to the nearest double. It is
  homogeneous for every scale factor that is a power of two: for doubles o and d and
  k = 2 powi n, as long as the operands and every operation of either side stay within
  the range of binary64,
  combine (k * o) (k * d) = k * combine o d, the products by k being float products too.
\<close>

theorem calculate_net_epa_power_of_two_homogeneous:
  "calculate_net_epa_double off dfn =
     round_double (round_double (round_double (off * round_double 1.6)
                     + round_double (dfn * round_double 1.0)) / round_double 2.6) \<and>
   (round_double off = off \<and> round_double dfn = dfn \<and>
    list_all fits ([off, dfn, 2 powi n, 2 powi n * off, 2 powi n * dfn,
         2 powi n * calculate_net_epa_double off dfn]
       @ net_epa_steps off dfn @ net_epa_steps (fmul (2 powi n) off) (fmul (2 powi n) dfn))
    \<longrightarrow> calculate_net_epa_double (fmul (2 powi n) off) (fmul (2 powi n) dfn)
          = fmul (2 powi n) (calculate_net_epa_double off dfn))"
proof (intro conjI impI)
  show "calculate_net_epa_double off dfn =
     round_double (round_double (round_double (off * round_double 1.6)
                     + round_double (dfn * round_double 1.0)) / round_double 2.6)"
    by (simp only: calculate_net_epa_double_def fmul_def fadd_def fdiv_def)
next
  assume a: "round_double off = off \<and> round_double dfn = dfn \<and>
    list_all fits ([off, dfn, 2 powi n, 2 powi n * off, 2 powi n * dfn,
         2 powi n * calculate_net_epa_double off dfn]
       @ net_epa_steps off dfn @ net_epa_steps (fmul (2 powi n) off) (fmul (2 powi n) dfn))"
  then have o: "fmul (2 powi n) off = 2 powi n * off"
    and d: "fmul (2 powi n) dfn = 2 powi n * dfn"
    by (simp_all add: fmul_def round_double_scale)
  have "fmul (2 powi n) (calculate_net_epa_double off dfn)
      = 2 powi n * calculate_net_epa_double off dfn"
    by (simp add: fmul_def round_double_scale calculate_net_epa_double_is_double)
  then show "calculate_net_epa_double (fmul (2 powi n) off) (fmul (2 powi n) dfn)
          = fmul (2 powi n) (calculate_net_epa_double off dfn)"
    by (simp only: o d calculate_net_epa_double_scale)
qed

lemma example_operands_are_doubles:
  "round_double (5404319552844595 / 2 ^ 55) = 5404319552844595 / 2 ^ 55" "round_double (5764607523034235 / 2 ^ 58) = 5764607523034235 / 2 ^ 58"
  using round_double_eval [of 55 "5404319552844595 / 2 ^ 55"] round_double_eval [of 58 "5764607523034235 / 2 ^ 58"]
  by (simp_all add: round_even_def)

lemma fmul_example_doubled:
  "fmul (2 powi 1) (5404319552844595 / 2 ^ 55) = 5404319552844595 / 2 ^ 54" "fmul (2 powi 1) (5764607523034235 / 2 ^ 58) = 5764607523034235 / 2 ^ 57"
  "fmul (2 powi 1) (7205759403792794 / 2 ^ 56) = 7205759403792794 / 2 ^ 55"
  using round_double_eval [of 54 "5404319552844595 / 2 ^ 54"] round_double_eval [of 57 "5764607523034235 / 2 ^ 57"]
    round_double_eval [of 55 "7205759403792794 / 2 ^ 55"]
  by (simp_all add: fmul_def round_even_def)

theorem calculate_net_epa_power_of_two_homogeneous_witness:
  "round_double (5404319552844595 / 2 ^ 55) = 5404319552844595 / 2 ^ 55 \<and> round_double (5764607523034235 / 2 ^ 58) = 5764607523034235 / 2 ^ 58 \<and>
   list_all fits ([5404319552844595 / 2 ^ 55, 5764607523034235 / 2 ^ 58,
        2 powi 1, 2 powi 1 * (5404319552844595 / 2 ^ 55), 2 powi 1 * (5764607523034235 / 2 ^ 58),
        2 powi 1 * calculate_net_epa_double (5404319552844595 / 2 ^ 55) (5764607523034235 / 2 ^ 58)]
       @ net_epa_steps (5404319552844595 / 2 ^ 55) (5764607523034235 / 2 ^ 58)
       @ net_epa_steps (fmul (2 powi 1) (5404319552844595 / 2 ^ 55)) (fmul (2 powi 1) (5764607523034235 / 2 ^ 58))) \<and>
   calculate_net_epa_double (fmul (2 powi 1) (5404319552844595 / 2 ^ 55)) (fmul (2 powi 1) (5764607523034235 / 2 ^ 58))
     = fmul (2 powi 1) (calculate_net_epa_double (5404319552844595 / 2 ^ 55) (5764607523034235 / 2 ^ 58)) \<and>
   fmul (2 powi 1) (calculate_net_epa_double (5404319552844595 / 2 ^ 55) (5764607523034235 / 2 ^ 58)) = 7205759403792794 / 2 ^ 55"
proof -
  have f: "list_all fits ([5404319552844595 / 2 ^ 55, 5764607523034235 / 2 ^ 58,
        2 powi 1, 2 powi 1 * (5404319552844595 / 2 ^ 55), 2 powi 1 * (5764607523034235 / 2 ^ 58),
        2 powi 1 * calculate_net_epa_double (5404319552844595 / 2 ^ 55) (5764607523034235 / 2 ^ 58)]
       @ net_epa_steps (5404319552844595 / 2 ^ 55) (5764607523034235 / 2 ^ 58)
       @ net_epa_steps (fmul (2 powi 1) (5404319552844595 / 2 ^ 55)) (fmul (2 powi 1) (5764607523034235 / 2 ^ 58)))"
    unfolding fmul_example_doubled net_epa_example net_epa_example_doubled
    by (simp add: fits_def)
  have v: "fmul (2 powi 1) (calculate_net_epa_double (5404319552844595 / 2 ^ 55) (5764607523034235 / 2 ^ 58)) = 7205759403792794 / 2 ^ 55"
    by (simp only: net_epa_example fmul_example_doubled)
  from example_operands_are_doubles f v
    calculate_net_epa_power_of_two_homogeneous [of "5404319552844595 / 2 ^ 55" "5764607523034235 / 2 ^ 58" 1]
  show ?thesis by blast
qed

text \<open>
  C7 as first stated does not hold for every positive scale factor: with k = 3, o = 0.15
  and d = 0.02 the combiner gives 5404319552844595 / 2 ^ 54 (the double 0.3) on the scaled
  arguments, and 3 times its result on the unscaled ones is 5404319552844596 / 2 ^ 54 (the
  double 0.30000000000000004).
\<close>

theorem calculate_net_epa_not_homogeneous_counterexample:
  "calculate_net_epa_double (fmul 3 (round_double 0.15)) (fmul 3 (round_double 0.02))
     = 5404319552844595 / 2 ^ 54 \<and>
   fmul 3 (calculate_net_epa_double (round_double 0.15) (round_double 0.02))
     = 5404319552844596 / 2 ^ 54 \<and>
   calculate_net_epa_double (fmul 3 (round_double 0.15)) (fmul 3 (round_double 0.02))
     \<noteq> fmul 3 (calculate_net_epa_double (round_double 0.15) (round_double 0.02))"
proof -
  have l: "round_double 0.15 = 5404319552844595 / 2 ^ 55" "round_double 0.02 = 5764607523034235 / 2 ^ 58"
    using double_literals(4,5) by simp_all
  have a: "calculate_net_epa_double (fmul 3 (round_double 0.15)) (fmul 3 (round_double 0.02))
     = 5404319552844595 / 2 ^ 54"
    by (simp only: l fmul_example_tripled net_epa_example_tripled)
  have b: "fmul 3 (calculate_net_epa_double (round_double 0.15) (round_double 0.02))
     = 5404319552844596 / 2 ^ 54"
    by (simp only: l net_epa_example fmul_example_tripled)
  have "(5404319552844595 / 2 ^ 54 :: real) \<noteq> 5404319552844596 / 2 ^ 54" by simp
  with a b show ?thesis by simp
qed

end
